theory Spec2Isabelle
  imports Complex_Main
begin

section \<open>The relational store\<close>

text \<open>
  The tools of the taxi marketplace work on one PostgreSQL database through drizzle
  (\<^verbatim>\<open>shared/schema\<close>). A table is the list of its rows in insertion order, a nullable column
  is an \<open>option\<close>, a \<^verbatim>\<open>text\<close> column is a \<open>string\<close>, an \<^verbatim>\<open>integer\<close> or \<^verbatim>\<open>serial\<close> column is an
  \<open>int\<close>. A \<^verbatim>\<open>decimal(8,2)\<close> price column is the amount it holds, in whole currency units, and the
  model covers the amounts such a column can hold. The \<^verbatim>\<open>decimal(3,2)\<close> rating columns keep the
  text drizzle reads and writes (\<^verbatim>\<open>"5.00"\<close>). The \<^verbatim>\<open>createdAt\<close> and \<^verbatim>\<open>updatedAt\<close> columns are left
  out: they default to the time of the insert, so the insertion order of a table is its
  \<^verbatim>\<open>createdAt\<close> order. A \<^verbatim>\<open>select\<close> without \<^verbatim>\<open>orderBy\<close> returns the rows in table order.
  The rows of a table hold values of their columns: an id that is read from a row and passed
  to a later statement is one the store accepts.
\<close>

type_synonym price = int

record passenger =
  p_id :: int
  p_telegramId :: string
  p_firstName :: string
  p_phoneNumber :: string
  p_rating :: "string option"
  p_totalRides :: "int option"

record driver =
  d_id :: int
  d_telegramId :: string
  d_firstName :: string
  d_phoneNumber :: string
  d_rating :: "string option"
  d_totalRides :: "int option"
  d_isOnline :: "bool option"
  d_isVerified :: "bool option"
  d_carModel :: "string option"
  d_carColor :: "string option"
  d_carNumber :: "string option"
  d_licenseStatus :: "string option"
  d_vehicleStatus :: "string option"

text \<open>The \<^verbatim>\<open>documentData\<close> object of \<^verbatim>\<open>uploadDocumentTool\<close>'s input schema, stored as \<^verbatim>\<open>jsonb\<close>.\<close>

record documentData =
  dd_number :: string
  dd_issuedBy :: string
  dd_issueDate :: string
  dd_expiryDate :: "string option"
  dd_additionalInfo :: "string option"

record driverDocument =
  doc_id :: int
  doc_driverId :: int
  doc_documentType :: string
  doc_documentData :: "documentData option"
  doc_status :: "string option"
  doc_rejectionReason :: "string option"

record order =
  o_id :: int
  o_passengerId :: int
  o_fromAddress :: string
  o_toAddress :: string
  o_suggestedPrice :: price
  o_finalPrice :: "price option"
  o_status :: "string option"
  o_acceptedDriverId :: "int option"

record driverOffer =
  off_id :: int
  off_orderId :: int
  off_driverId :: int
  off_offeredPrice :: price
  off_status :: "string option"
  off_message :: "string option"

record priceNegotiation =
  n_id :: int
  n_orderId :: int
  n_fromUserId :: int
  n_fromUserType :: string
  n_toUserId :: int
  n_toUserType :: string
  n_proposedPrice :: price
  n_status :: "string option"

record rating =
  r_id :: int
  r_orderId :: int
  r_fromUserId :: int
  r_fromUserType :: string
  r_toUserId :: int
  r_toUserType :: string
  r_rating :: int
  r_comment :: "string option"

text \<open>
  The database: the seven tables, and for each the last value its \<^verbatim>\<open>serial\<close> sequence gave
  out. An insert takes the next value as the row's \<^verbatim>\<open>id\<close>.
\<close>

record db =
  passengers :: "passenger list"
  drivers :: "driver list"
  driverDocuments :: "driverDocument list"
  orders :: "order list"
  driverOffers :: "driverOffer list"
  priceNegotiations :: "priceNegotiation list"
  ratings :: "rating list"
  seq_passengers :: int
  seq_drivers :: int
  seq_driverDocuments :: int
  seq_orders :: int
  seq_driverOffers :: int
  seq_priceNegotiations :: int
  seq_ratings :: int

definition empty_db :: db where
  "empty_db = \<lparr>passengers = [], drivers = [], driverDocuments = [], orders = [],
     driverOffers = [], priceNegotiations = [], ratings = [],
     seq_passengers = 0, seq_drivers = 0, seq_driverDocuments = 0, seq_orders = 0,
     seq_driverOffers = 0, seq_priceNegotiations = 0, seq_ratings = 0\<rparr>"

text \<open>
  The enums of the input schemas (\<^verbatim>\<open>z.enum\<close>), with the text each is stored as.
\<close>

datatype documentType = License | VehicleRegistration | Insurance

fun documentType_text :: "documentType \<Rightarrow> string" where
  "documentType_text License = ''license''"
| "documentType_text VehicleRegistration = ''vehicle_registration''"
| "documentType_text Insurance = ''insurance''"

datatype userType = Passenger | Driver

fun userType_text :: "userType \<Rightarrow> string" where
  "userType_text Passenger = ''passenger''"
| "userType_text Driver = ''driver''"

text \<open>
  Every tool returns \<^verbatim>\<open>{success, message, ...}\<close> and never throws: its body is one
  \<^verbatim>\<open>try\<close> whose \<^verbatim>\<open>catch\<close> returns a failure. A failure is named here after the message it
  carries (the messages are Russian text), and a tool is a function from the database and
  its input to its result and the database it leaves. The store is taken to answer every
  statement it accepts: a statement raises only where the schema of the table refuses a value
  the tool passes, and then the \<^verbatim>\<open>catch\<close> of the tool answers.
\<close>

datatype failure =
    DriverNotFound         \<comment> \<open>the driver lookup by \<^verbatim>\<open>telegramId\<close> was empty\<close>
  | PassengerNotFound      \<comment> \<open>the passenger lookup by \<^verbatim>\<open>telegramId\<close> was empty\<close>
  | OfferNotFound          \<comment> \<open>\<^verbatim>\<open>acceptOfferTool\<close>: no offer with this id\<close>
  | OrderNotFound          \<comment> \<open>\<^verbatim>\<open>rateRideTool\<close>: no order with this id\<close>
  | NegotiationNotFound    \<comment> \<open>\<^verbatim>\<open>respondToCounterOfferTool\<close>: no negotiation with this id\<close>
  | NotVerified            \<comment> \<open>\<^verbatim>\<open>makeOfferTool\<close>: the driver is not verified\<close>
  | DuplicateOffer         \<comment> \<open>\<^verbatim>\<open>makeOfferTool\<close>: the driver already made an offer on this order\<close>
  | NotOrderPassenger      \<comment> \<open>\<^verbatim>\<open>rateRideTool\<close>: the caller is not the passenger of this order\<close>
  | NotOrderDriver         \<comment> \<open>\<^verbatim>\<open>rateRideTool\<close>: the caller is not the driver of this order\<close>
  | AlreadyRated           \<comment> \<open>\<^verbatim>\<open>rateRideTool\<close>: the caller already rated this ride\<close>
  | CaughtError            \<comment> \<open>the \<^verbatim>\<open>catch\<close> branch: the store raised\<close>

text \<open>The error taxonomy of the specification, for the failures above.\<close>

datatype errorKind = NotFound | PolicyDenied | Conflict | Internal

fun kind :: "failure \<Rightarrow> errorKind" where
  "kind DriverNotFound = NotFound"
| "kind PassengerNotFound = NotFound"
| "kind OfferNotFound = NotFound"
| "kind OrderNotFound = NotFound"
| "kind NegotiationNotFound = NotFound"
| "kind NotVerified = PolicyDenied"
| "kind NotOrderPassenger = PolicyDenied"
| "kind NotOrderDriver = PolicyDenied"
| "kind DuplicateOffer = Conflict"
| "kind AlreadyRated = Conflict"
| "kind CaughtError = Internal"

text \<open>
  \<^verbatim>\<open>db.update(table).set(g).where(P)\<close>: every row that satisfies the condition is changed, in
  place. A \<^verbatim>\<open>db.select().from(table).where(P)\<close> is \<open>filter P\<close> on the table.
\<close>

definition update_where :: "('r \<Rightarrow> bool) \<Rightarrow> ('r \<Rightarrow> 'r) \<Rightarrow> 'r list \<Rightarrow> 'r list" where
  "update_where P g rows = map (\<lambda>r. if P r then g r else r) rows"

text \<open>JavaScript's \<^verbatim>\<open>x || null\<close> on an optional string: the empty string is falsy too.\<close>

fun orNull :: "string option \<Rightarrow> string option" where
  "orNull None = None"
| "orNull (Some x) = (if x = [] then None else Some x)"

text \<open>The truth value of a nullable boolean column (\<^verbatim>\<open>!x\<close>, \<^verbatim>\<open>Boolean(x)\<close>).\<close>

fun truthy_bool :: "bool option \<Rightarrow> bool" where
  "truthy_bool None = False"
| "truthy_bool (Some b) = b"

text \<open>The truth value of an optional number (\<^verbatim>\<open>if (counterPrice)\<close>): absent and zero are falsy.\<close>

fun truthy_num :: "int option \<Rightarrow> bool" where
  "truthy_num None = False"
| "truthy_num (Some n) = (n \<noteq> 0)"

text \<open>
  The numbers the order engine and the rating tools receive. Their input schemas declare an
  id or a rating \<^verbatim>\<open>z.number()\<close>, which admits every number: 2147483648, 4.5. Such an argument
  is the rational it denotes. It reaches the store as the parameter of a statement, compared
  with an \<^verbatim>\<open>integer\<close> column or written to one, and the store takes it when it is whole and
  fits 32 bits. Any other number it refuses when the statement is bound, before a row is read
  or written and before an insert draws from its sequence.
\<close>

definition asInteger :: "rat \<Rightarrow> int option" where
  "asInteger x =
     (if of_int \<lfloor>x\<rfloor> = x \<and> - 2147483648 \<le> \<lfloor>x\<rfloor> \<and> \<lfloor>x\<rfloor> \<le> 2147483647 then Some \<lfloor>x\<rfloor> else None)"

text \<open>
  A \<^verbatim>\<open>decimal(8,2)\<close> column holds six digits before the point. The prices the tools receive are
  whole amounts here; one of seven digits or more the store refuses, as it does the number
  above.
\<close>

definition fitsDecimal :: "price \<Rightarrow> bool" where
  "fitsDecimal p = (- 1000000 < p \<and> p < 1000000)"

section \<open>Registration and orders\<close>

text \<open>\<^verbatim>\<open>registerPassengerTool\<close>: an upsert keyed by \<^verbatim>\<open>telegramId\<close>.\<close>

definition registerPassenger :: "db \<Rightarrow> string \<Rightarrow> string \<Rightarrow> string \<Rightarrow> (failure + int) \<times> db" where
  "registerPassenger s telegramId firstName phoneNumber =
     (case filter (\<lambda>p. p_telegramId p = telegramId) (passengers s) of
        existing # _ \<Rightarrow> (Inr (p_id existing), s)
      | [] \<Rightarrow>
          let newId = seq_passengers s + 1;
              row = \<lparr>p_id = newId, p_telegramId = telegramId, p_firstName = firstName,
                     p_phoneNumber = phoneNumber, p_rating = Some ''5.00'',
                     p_totalRides = Some 0\<rparr>
          in (Inr newId, s\<lparr>passengers := passengers s @ [row], seq_passengers := newId\<rparr>))"

text \<open>\<^verbatim>\<open>registerDriverTool\<close>: the same for drivers; a new driver is not verified.\<close>

definition registerDriver ::
  "db \<Rightarrow> string \<Rightarrow> string \<Rightarrow> string \<Rightarrow> string \<Rightarrow> string \<Rightarrow> string \<Rightarrow> (failure + int) \<times> db" where
  "registerDriver s telegramId firstName phoneNumber carModel carColor carNumber =
     (case filter (\<lambda>d. d_telegramId d = telegramId) (drivers s) of
        existing # _ \<Rightarrow> (Inr (d_id existing), s)
      | [] \<Rightarrow>
          let newId = seq_drivers s + 1;
              row = \<lparr>d_id = newId, d_telegramId = telegramId, d_firstName = firstName,
                     d_phoneNumber = phoneNumber, d_rating = Some ''5.00'',
                     d_totalRides = Some 0, d_isOnline = Some False,
                     d_isVerified = Some False, d_carModel = Some carModel,
                     d_carColor = Some carColor, d_carNumber = Some carNumber,
                     d_licenseStatus = Some ''pending'', d_vehicleStatus = Some ''pending''\<rparr>
          in (Inr newId, s\<lparr>drivers := drivers s @ [row], seq_drivers := newId\<rparr>))"

text \<open>
  \<^verbatim>\<open>createOrderTool\<close>: a registered passenger opens a \<^verbatim>\<open>pending\<close> order. A price the column
  cannot hold makes the insert raise.
\<close>

definition createOrder :: "db \<Rightarrow> string \<Rightarrow> string \<Rightarrow> string \<Rightarrow> price \<Rightarrow> (failure + int) \<times> db" where
  "createOrder s telegramId fromAddress toAddress suggestedPrice =
     (case filter (\<lambda>p. p_telegramId p = telegramId) (passengers s) of
        [] \<Rightarrow> (Inl PassengerNotFound, s)
      | passenger # _ \<Rightarrow>
          if \<not> fitsDecimal suggestedPrice then (Inl CaughtError, s)
          else
            let newId = seq_orders s + 1;
                row = \<lparr>o_id = newId, o_passengerId = p_id passenger,
                       o_fromAddress = fromAddress, o_toAddress = toAddress,
                       o_suggestedPrice = suggestedPrice, o_finalPrice = None,
                       o_status = Some ''pending'', o_acceptedDriverId = None\<rparr>
            in (Inr newId, s\<lparr>orders := orders s @ [row], seq_orders := newId\<rparr>))"

section \<open>The order engine: accepting an offer\<close>

text \<open>
  \<^verbatim>\<open>acceptOfferTool\<close>. The offer is read with its driver (a left join), the order named by the
  \<^verbatim>\<open>orderId\<close> argument is updated, then the offer. The success value is the joined driver row
  the tool formats its \<^verbatim>\<open>driverInfo\<close> from. The select raises on an \<^verbatim>\<open>offerId\<close> the id column
  cannot hold, and the update of the order, the first write, on such an \<^verbatim>\<open>orderId\<close>.
\<close>

definition acceptOffer :: "db \<Rightarrow> rat \<Rightarrow> rat \<Rightarrow> (failure + driver option) \<times> db" where
  "acceptOffer s offerId orderId =
     (case asInteger offerId of
        None \<Rightarrow> (Inl CaughtError, s)
      | Some offerKey \<Rightarrow>
          (case filter (\<lambda>f. off_id f = offerKey) (driverOffers s) of
             [] \<Rightarrow> (Inl OfferNotFound, s)
           | offerData # _ \<Rightarrow>
               (case asInteger orderId of
                  None \<Rightarrow> (Inl CaughtError, s)
                | Some orderKey \<Rightarrow>
                    let driverData =
                          (case filter (\<lambda>d. d_id d = off_driverId offerData) (drivers s) of
                             [] \<Rightarrow> None | d # _ \<Rightarrow> Some d);
                        s1 = s\<lparr>orders :=
                               update_where (\<lambda>r. o_id r = orderKey)
                                 (\<lambda>r. r\<lparr>o_status := Some ''accepted'',
                                        o_acceptedDriverId := Some (off_driverId offerData),
                                        o_finalPrice := Some (off_offeredPrice offerData)\<rparr>)
                                 (orders s)\<rparr>;
                        s2 = s1\<lparr>driverOffers :=
                               update_where (\<lambda>f. off_id f = offerKey)
                                 (\<lambda>f. f\<lparr>off_status := Some ''accepted''\<rparr>) (driverOffers s1)\<rparr>
                    in (Inr driverData, s2))))"

section \<open>The verification ledger\<close>

text \<open>
  \<^verbatim>\<open>uploadDocumentTool\<close>: the first document of this driver and type is updated in place, or a new
  \<^verbatim>\<open>pending\<close> document is inserted. The driver's \<^verbatim>\<open>isVerified\<close> flag is not touched.
\<close>

definition uploadDocument ::
  "db \<Rightarrow> string \<Rightarrow> documentType \<Rightarrow> documentData \<Rightarrow> (failure + int) \<times> db" where
  "uploadDocument s telegramId documentType documentData =
     (case filter (\<lambda>d. d_telegramId d = telegramId) (drivers s) of
        [] \<Rightarrow> (Inl DriverNotFound, s)
      | driver # _ \<Rightarrow>
          (case filter (\<lambda>c. doc_driverId c = d_id driver
                             \<and> doc_documentType c = documentType_text documentType)
                       (driverDocuments s) of
             existingDoc # _ \<Rightarrow>
               (Inr (doc_id existingDoc),
                s\<lparr>driverDocuments :=
                    update_where (\<lambda>c. doc_id c = doc_id existingDoc)
                      (\<lambda>c. c\<lparr>doc_documentData := Some documentData,
                             doc_status := Some ''pending'',
                             doc_rejectionReason := None\<rparr>)
                      (driverDocuments s)\<rparr>)
           | [] \<Rightarrow>
               let newId = seq_driverDocuments s + 1;
                   row = \<lparr>doc_id = newId, doc_driverId = d_id driver,
                          doc_documentType = documentType_text documentType,
                          doc_documentData = Some documentData,
                          doc_status = Some ''pending'', doc_rejectionReason = None\<rparr>
               in (Inr newId,
                   s\<lparr>driverDocuments := driverDocuments s @ [row],
                     seq_driverDocuments := newId\<rparr>)))"

text \<open>
  The test both \<^verbatim>\<open>checkAndUpdateDriverVerification\<close> and \<^verbatim>\<open>checkVerificationStatusTool\<close>
  make: every required type has an approved document among the driver's documents.
\<close>

definition requiredDocs :: "string list" where
  "requiredDocs = [''license'', ''vehicle_registration'']"

definition hasAllRequiredApproved :: "driverDocument list \<Rightarrow> bool" where
  "hasAllRequiredApproved documents =
     (let approvedDocs = filter (\<lambda>c. doc_status c = Some ''approved'') documents
      in list_all (\<lambda>t. list_ex (\<lambda>c. doc_documentType c = t) approvedDocs) requiredDocs)"

definition checkAndUpdateDriverVerification :: "db \<Rightarrow> int \<Rightarrow> db" where
  "checkAndUpdateDriverVerification s driverId =
     (let documents = filter (\<lambda>c. doc_driverId c = driverId) (driverDocuments s);
          ok = hasAllRequiredApproved documents
      in s\<lparr>drivers :=
            update_where (\<lambda>d. d_id d = driverId)
              (\<lambda>d. d\<lparr>d_isVerified := Some ok,
                     d_licenseStatus := Some (if ok then ''approved'' else ''pending''),
                     d_vehicleStatus := Some (if ok then ''approved'' else ''pending'')\<rparr>)
              (drivers s)\<rparr>)"

text \<open>
  \<^verbatim>\<open>processDocumentVerificationTool\<close> (the specification's \<open>adjudicateDocument\<close>): the status is
  written first, then the document is read back and, when it exists, its driver's flag is
  recomputed. The tool reports success also when no document has the id.
\<close>

definition processDocumentVerification ::
  "db \<Rightarrow> int \<Rightarrow> bool \<Rightarrow> string option \<Rightarrow> (failure + unit) \<times> db" where
  "processDocumentVerification s documentId approve rejectionReason =
     (let newStatus = (if approve then ''approved'' else ''rejected'');
          s1 = s\<lparr>driverDocuments :=
                 update_where (\<lambda>c. doc_id c = documentId)
                   (\<lambda>c. c\<lparr>doc_status := Some newStatus,
                          doc_rejectionReason :=
                            (if approve then None else orNull rejectionReason)\<rparr>)
                   (driverDocuments s)\<rparr>
      in case filter (\<lambda>c. doc_id c = documentId) (driverDocuments s1) of
           [] \<Rightarrow> (Inr (), s1)
         | document # _ \<Rightarrow> (Inr (), checkAndUpdateDriverVerification s1 (doc_driverId document)))"

text \<open>
  \<^verbatim>\<open>checkVerificationStatusTool\<close> reports a driver verified when the documents pass the test
  and the stored flag is set.
\<close>

definition checkVerificationStatus :: "db \<Rightarrow> string \<Rightarrow> (failure + bool) \<times> db" where
  "checkVerificationStatus s telegramId =
     (case filter (\<lambda>d. d_telegramId d = telegramId) (drivers s) of
        [] \<Rightarrow> (Inl DriverNotFound, s)
      | driver # _ \<Rightarrow>
          let documents = filter (\<lambda>c. doc_driverId c = d_id driver) (driverDocuments s)
          in (Inr (hasAllRequiredApproved documents \<and> truthy_bool (d_isVerified driver)), s))"

section \<open>Offers and negotiations\<close>

text \<open>
  \<^verbatim>\<open>makeOfferTool\<close>: the checks in the order the tool makes them, then the insert. The
  \<^verbatim>\<open>orderId\<close> first reaches the store in the select for an earlier offer, the price in the
  insert.
\<close>

definition makeOffer ::
  "db \<Rightarrow> string \<Rightarrow> rat \<Rightarrow> price \<Rightarrow> string option \<Rightarrow> (failure + unit) \<times> db" where
  "makeOffer s telegramId orderId offeredPrice message =
     (case filter (\<lambda>d. d_telegramId d = telegramId) (drivers s) of
        [] \<Rightarrow> (Inl DriverNotFound, s)
      | driver # _ \<Rightarrow>
          if \<not> truthy_bool (d_isVerified driver) then (Inl NotVerified, s)
          else
            (case asInteger orderId of
               None \<Rightarrow> (Inl CaughtError, s)
             | Some orderKey \<Rightarrow>
                 if filter (\<lambda>f. off_orderId f = orderKey \<and> off_driverId f = d_id driver)
                           (driverOffers s) \<noteq> []
                 then (Inl DuplicateOffer, s)
                 else if \<not> fitsDecimal offeredPrice then (Inl CaughtError, s)
                 else
                   let newId = seq_driverOffers s + 1;
                       row = \<lparr>off_id = newId, off_orderId = orderKey, off_driverId = d_id driver,
                              off_offeredPrice = offeredPrice, off_status = Some ''pending'',
                              off_message = orNull message\<rparr>
                   in (Inr (), s\<lparr>driverOffers := driverOffers s @ [row],
                                 seq_driverOffers := newId\<rparr>)))"

text \<open>\<^verbatim>\<open>makeCounterOfferTool\<close>: a registered passenger proposes a price to a driver.\<close>

definition makeCounterOffer ::
  "db \<Rightarrow> int \<Rightarrow> string \<Rightarrow> int \<Rightarrow> price \<Rightarrow> (failure + unit) \<times> db" where
  "makeCounterOffer s orderId telegramId driverId counterPrice =
     (case filter (\<lambda>p. p_telegramId p = telegramId) (passengers s) of
        [] \<Rightarrow> (Inl PassengerNotFound, s)
      | passenger # _ \<Rightarrow>
          let newId = seq_priceNegotiations s + 1;
              row = \<lparr>n_id = newId, n_orderId = orderId, n_fromUserId = p_id passenger,
                     n_fromUserType = ''passenger'', n_toUserId = driverId,
                     n_toUserType = ''driver'', n_proposedPrice = counterPrice,
                     n_status = Some ''pending''\<rparr>
          in (Inr (), s\<lparr>priceNegotiations := priceNegotiations s @ [row],
                        seq_priceNegotiations := newId\<rparr>))"

text \<open>
  \<^verbatim>\<open>respondToCounterOfferTool\<close>. The three branches follow the driver lookup: \<^verbatim>\<open>if (accept)\<close>,
  \<^verbatim>\<open>else if (counterPrice)\<close>, \<^verbatim>\<open>else\<close>. Only the middle one reads the negotiation; the other two
  update whatever row has the id.
\<close>

datatype response = NegotiationAccepted | CounterSent price | NegotiationRejected

definition respondToCounterOffer ::
  "db \<Rightarrow> string \<Rightarrow> int \<Rightarrow> bool \<Rightarrow> price option \<Rightarrow> (failure + response) \<times> db" where
  "respondToCounterOffer s telegramId negotiationId accept counterPrice =
     (case filter (\<lambda>d. d_telegramId d = telegramId) (drivers s) of
        [] \<Rightarrow> (Inl DriverNotFound, s)
      | driver # _ \<Rightarrow>
          if accept then
            (Inr NegotiationAccepted,
             s\<lparr>priceNegotiations :=
                 update_where (\<lambda>n. n_id n = negotiationId) (\<lambda>n. n\<lparr>n_status := Some ''accepted''\<rparr>)
                   (priceNegotiations s)\<rparr>)
          else if truthy_num counterPrice then
            (case filter (\<lambda>n. n_id n = negotiationId) (priceNegotiations s) of
               [] \<Rightarrow> (Inl NegotiationNotFound, s)
             | negotiation # _ \<Rightarrow>
                 let newId = seq_priceNegotiations s + 1;
                     row = \<lparr>n_id = newId, n_orderId = n_orderId negotiation,
                            n_fromUserId = d_id driver, n_fromUserType = ''driver'',
                            n_toUserId = n_fromUserId negotiation,
                            n_toUserType = ''passenger'',
                            n_proposedPrice = the counterPrice,
                            n_status = Some ''pending''\<rparr>
                 in (Inr (CounterSent (the counterPrice)),
                     s\<lparr>priceNegotiations := priceNegotiations s @ [row],
                       seq_priceNegotiations := newId\<rparr>))
          else
            (Inr NegotiationRejected,
             s\<lparr>priceNegotiations :=
                 update_where (\<lambda>n. n_id n = negotiationId) (\<lambda>n. n\<lparr>n_status := Some ''rejected''\<rparr>)
                   (priceNegotiations s)\<rparr>))"

section \<open>JavaScript numbers\<close>

text \<open>
  The rating average is computed in JavaScript numbers (IEEE 754 doubles) and printed with
  \<^verbatim>\<open>toFixed(2)\<close>. The doubles that occur are sums of \<^verbatim>\<open>integer\<close> column values, which are
  integers, and one quotient of such a sum by an array length. Both are modelled exactly, in
  integer arithmetic: a finite double is a sign, a mantissa and a binary exponent, of value
  \<open>mant * 2 ^ expo\<close>. Exponent overflow and subnormal numbers need values no sum of 32-bit
  column values reaches and are not modelled, nor is the exponent form \<^verbatim>\<open>toFixed\<close> prints
  from \<open>10 ^ 21\<close> on.
\<close>

datatype double = Double (negative: bool) (mant: nat) (expo: int)

fun bits :: "nat \<Rightarrow> nat" where
  "bits n = (if n = 0 then 0 else Suc (bits (n div 2)))"

declare bits.simps [simp del]

text \<open>The fraction \<open>num / den / 2 ^ e\<close> as a numerator and a denominator.\<close>

definition scale :: "nat \<Rightarrow> nat \<Rightarrow> int \<Rightarrow> nat \<times> nat" where
  "scale num den e = (if e \<le> 0 then (num * 2 ^ nat (- e), den) else (num, den * 2 ^ nat e))"

text \<open>A fraction rounded to the nearest integer, a tie to the even one.\<close>

definition roundEven :: "nat \<times> nat \<Rightarrow> nat" where
  "roundEven f =
     (let q = fst f div snd f; r = fst f mod snd f
      in if snd f < 2 * r \<or> (2 * r = snd f \<and> odd q) then q + 1 else q)"

text \<open>
  The double nearest to the fraction \<open>num / den\<close>: the exponent is chosen so that the scaled
  fraction lies between \<open>2 ^ 52\<close> and \<open>2 ^ 53\<close>, and the mantissa is the scaled fraction
  rounded to nearest, ties to even.
\<close>

definition toDouble :: "nat \<Rightarrow> nat \<Rightarrow> nat \<times> int" where
  "toDouble num den =
     (if num = 0 then (0, 0)
      else
        let e0 = int (bits num) - int (bits den) - 53;
            f0 = scale num den e0;
            e = (if 2 ^ 53 \<le> fst f0 div snd f0 then e0 + 1 else e0)
        in (roundEven (scale num den e), e))"

text \<open>An integer as a double: exact below \<open>2 ^ 53\<close>, rounded to 53 bits above.\<close>

definition round53 :: "int \<Rightarrow> int" where
  "round53 z =
     (if \<bar>z\<bar> < 2 ^ 53 then z
      else let d = toDouble (nat \<bar>z\<bar>) 1 in sgn z * int (fst d) * 2 ^ nat (snd d))"

text \<open>\<^verbatim>\<open>xs.reduce((sum, r) => sum + r.rating, 0)\<close>: each addition rounds.\<close>

definition js_sum :: "int list \<Rightarrow> int" where
  "js_sum xs = foldl (\<lambda>sum r. round53 (sum + r)) 0 xs"

text \<open>\<^verbatim>\<open>sum / xs.length\<close>, for a length that is not zero.\<close>

definition js_div :: "int \<Rightarrow> nat \<Rightarrow> double" where
  "js_div z n = (let d = toDouble (nat \<bar>z\<bar>) n in Double (z < 0) (fst d) (snd d))"

text \<open>
  \<^verbatim>\<open>Number.prototype.toFixed(2)\<close>: the integer \<open>n\<close> for which \<open>n / 100\<close> is nearest to the
  number's magnitude, the larger one of two; its digits, filled with zeros to three; a point
  before the last two; a minus sign when the number is below zero.
\<close>

definition hundredths :: "nat \<Rightarrow> int \<Rightarrow> nat" where
  "hundredths m e =
     (if 0 \<le> e then 100 * m * 2 ^ nat e
      else (200 * m + 2 ^ nat (- e)) div (2 * 2 ^ nat (- e)))"

fun digits :: "nat \<Rightarrow> string" where
  "digits n = (if n < 10 then [''0123456789'' ! n]
               else digits (n div 10) @ [''0123456789'' ! (n mod 10)])"

declare digits.simps [simp del]

definition fixed2 :: "nat \<Rightarrow> string" where
  "fixed2 n =
     (let m = digits n;
          m' = (if length m \<le> 2 then replicate (3 - length m) (CHR ''0'') @ m else m)
      in take (length m' - 2) m' @ ''.'' @ drop (length m' - 2) m')"

definition toFixed2 :: "double \<Rightarrow> string" where
  "toFixed2 x =
     (if negative x \<and> mant x \<noteq> 0 then ''-'' else []) @ fixed2 (hundredths (mant x) (expo x))"

section \<open>The rating aggregator\<close>

text \<open>
  \<^verbatim>\<open>updateUserRating\<close>: the mean of every rating the user received in the role, written to
  the user's profile with their number. Without a rating nothing is written.
\<close>

definition updateUserRating :: "db \<Rightarrow> int \<Rightarrow> string \<Rightarrow> db" where
  "updateUserRating s userId userType =
     (let userRatings = filter (\<lambda>r. r_toUserId r = userId \<and> r_toUserType r = userType) (ratings s)
      in if userRatings = [] then s
         else
           let avgRating = js_div (js_sum (map r_rating userRatings)) (length userRatings);
               totalRides = int (length userRatings)
           in if userType = ''driver''
              then s\<lparr>drivers :=
                      update_where (\<lambda>d. d_id d = userId)
                        (\<lambda>d. d\<lparr>d_rating := Some (toFixed2 avgRating),
                               d_totalRides := Some totalRides\<rparr>)
                        (drivers s)\<rparr>
              else s\<lparr>passengers :=
                      update_where (\<lambda>p. p_id p = userId)
                        (\<lambda>p. p\<lparr>p_rating := Some (toFixed2 avgRating),
                               p_totalRides := Some totalRides\<rparr>)
                        (passengers s)\<rparr>)"

text \<open>
  The \<^verbatim>\<open>if (userType === "passenger") ... else ...\<close> block of \<^verbatim>\<open>rateRideTool\<close>: who rates and
  who is rated. The rated driver is the order's \<^verbatim>\<open>acceptedDriverId\<close>, which may be null.
\<close>

definition ratingParties ::
  "db \<Rightarrow> string \<Rightarrow> userType \<Rightarrow> order \<Rightarrow> failure + int \<times> int option" where
  "ratingParties s telegramId userType orderData =
     (case userType of
        Passenger \<Rightarrow>
          (case filter (\<lambda>p. p_telegramId p = telegramId) (passengers s) of
             [] \<Rightarrow> Inl NotOrderPassenger
           | passenger # _ \<Rightarrow>
               if p_id passenger \<noteq> o_passengerId orderData then Inl NotOrderPassenger
               else Inr (p_id passenger, o_acceptedDriverId orderData))
      | Driver \<Rightarrow>
          (case filter (\<lambda>d. d_telegramId d = telegramId) (drivers s) of
             [] \<Rightarrow> Inl NotOrderDriver
           | driver # _ \<Rightarrow>
               if Some (d_id driver) \<noteq> o_acceptedDriverId orderData then Inl NotOrderDriver
               else Inr (d_id driver, Some (o_passengerId orderData))))"

fun counterpart :: "userType \<Rightarrow> userType" where
  "counterpart Passenger = Driver"
| "counterpart Driver = Passenger"

text \<open>
  \<^verbatim>\<open>rateRideTool\<close>. The input schema admits every rating from 1 to 5, 4.5 among them, and the
  \<^verbatim>\<open>rating\<close> column is an \<^verbatim>\<open>integer\<close>: the insert of a rating that is not whole raises when it is
  bound. The \<^verbatim>\<open>to_user_id\<close> column is \<^verbatim>\<open>notNull\<close>: the insert of a rating whose target is null
  raises when the row is checked, after it has drawn the row's id from the sequence. In both
  cases the tool's \<^verbatim>\<open>catch\<close> returns its failure and no row is written. The mean of ratings
  from 1 to 5 fits the \<^verbatim>\<open>decimal(3,2)\<close> rating column.
\<close>

definition rateRide ::
  "db \<Rightarrow> string \<Rightarrow> rat \<Rightarrow> userType \<Rightarrow> rat \<Rightarrow> string option \<Rightarrow> (failure + unit) \<times> db" where
  "rateRide s telegramId orderId userType rating comment =
     (case asInteger orderId of
        None \<Rightarrow> (Inl CaughtError, s)
      | Some orderKey \<Rightarrow>
          (case filter (\<lambda>r. o_id r = orderKey) (orders s) of
             [] \<Rightarrow> (Inl OrderNotFound, s)
           | orderData # _ \<Rightarrow>
               (case ratingParties s telegramId userType orderData of
                  Inl f \<Rightarrow> (Inl f, s)
                | Inr (fromUserId, toUserId) \<Rightarrow>
                    if filter (\<lambda>r. r_orderId r = orderKey \<and> r_fromUserId r = fromUserId)
                              (ratings s) \<noteq> []
                    then (Inl AlreadyRated, s)
                    else
                      (case asInteger rating of
                         None \<Rightarrow> (Inl CaughtError, s)
                       | Some stars \<Rightarrow>
                           let newId = seq_ratings s + 1
                           in (case toUserId of
                                 None \<Rightarrow> (Inl CaughtError, s\<lparr>seq_ratings := newId\<rparr>)
                               | Some target \<Rightarrow>
                                   let row = \<lparr>r_id = newId, r_orderId = orderKey,
                                              r_fromUserId = fromUserId,
                                              r_fromUserType = userType_text userType,
                                              r_toUserId = target,
                                              r_toUserType = userType_text (counterpart userType),
                                              r_rating = stars, r_comment = orNull comment\<rparr>;
                                       s1 = s\<lparr>ratings := ratings s @ [row], seq_ratings := newId\<rparr>
                                   in (Inr (), updateUserRating s1 target
                                                 (userType_text (counterpart userType))))))))"

text \<open>
  \<^verbatim>\<open>getUserRatingTool\<close>: the user's ratings in \<^verbatim>\<open>createdAt\<close> order; without one the defaults;
  else the mean, the number of ratings and the last five comments, newest first. The select
  raises on a \<^verbatim>\<open>userId\<close> the \<^verbatim>\<open>to_user_id\<close> column cannot hold.
\<close>

record userRating =
  ur_rating :: string
  ur_totalRatings :: nat
  ur_recentComments :: "string list"

definition lastN :: "nat \<Rightarrow> 'a list \<Rightarrow> 'a list" where
  "lastN k xs = drop (length xs - k) xs"

definition getUserRating :: "db \<Rightarrow> rat \<Rightarrow> userType \<Rightarrow> (failure + userRating) \<times> db" where
  "getUserRating s userId userType =
     (case asInteger userId of
        None \<Rightarrow> (Inl CaughtError, s)
      | Some userKey \<Rightarrow>
          let userRatings =
                filter (\<lambda>r. r_toUserId r = userKey \<and> r_toUserType r = userType_text userType)
                       (ratings s)
          in if userRatings = []
             then (Inr \<lparr>ur_rating = ''5.00'', ur_totalRatings = 0, ur_recentComments = []\<rparr>, s)
             else
               let avgRating = js_div (js_sum (map r_rating userRatings)) (length userRatings);
                   recentComments =
                     rev (map (\<lambda>r. the (r_comment r))
                              (lastN 5 (filter (\<lambda>r. orNull (r_comment r) \<noteq> None) userRatings)))
               in (Inr \<lparr>ur_rating = toFixed2 avgRating, ur_totalRatings = length userRatings,
                        ur_recentComments = recentComments\<rparr>, s))"

section \<open>A marketplace state\<close>

text \<open>
  The scenario of the specification: passenger P has two orders, the first at 500; the verified
  drivers D1 and D2 offered 600 and 550 on it; a third driver, D3, is registered and has
  submitted no document. The state is given row by row and is the one the tools leave when
  they are called in that order on the empty database.
\<close>

definition sample_document :: documentData where
  "sample_document = \<lparr>dd_number = ''77AA'', dd_issuedBy = ''GIBDD'', dd_issueDate = ''2020-01-01'',
     dd_expiryDate = None, dd_additionalInfo = None\<rparr>"

definition renewed_document :: documentData where
  "renewed_document = \<lparr>dd_number = ''99ZZ'', dd_issuedBy = ''GIBDD'', dd_issueDate = ''2024-05-05'',
     dd_expiryDate = Some ''2034-05-05'', dd_additionalInfo = None\<rparr>"

definition driver_row :: "int \<Rightarrow> string \<Rightarrow> bool \<Rightarrow> driver" where
  "driver_row i handle verified =
     \<lparr>d_id = i, d_telegramId = handle, d_firstName = ''Ivan'', d_phoneNumber = ''200'',
      d_rating = Some ''5.00'', d_totalRides = Some 0, d_isOnline = Some False,
      d_isVerified = Some verified, d_carModel = Some ''Lada'', d_carColor = Some ''white'',
      d_carNumber = Some ''A001'',
      d_licenseStatus = Some (if verified then ''approved'' else ''pending''),
      d_vehicleStatus = Some (if verified then ''approved'' else ''pending'')\<rparr>"

definition document_row :: "int \<Rightarrow> int \<Rightarrow> string \<Rightarrow> string \<Rightarrow> driverDocument" where
  "document_row i driverId documentType status =
     \<lparr>doc_id = i, doc_driverId = driverId, doc_documentType = documentType,
      doc_documentData = Some sample_document, doc_status = Some status,
      doc_rejectionReason = None\<rparr>"

definition passenger_row :: "int \<Rightarrow> string \<Rightarrow> passenger" where
  "passenger_row i handle =
     \<lparr>p_id = i, p_telegramId = handle, p_firstName = ''Pavel'', p_phoneNumber = ''100'',
      p_rating = Some ''5.00'', p_totalRides = Some 0\<rparr>"

definition order_row :: "int \<Rightarrow> int \<Rightarrow> price \<Rightarrow> order" where
  "order_row i passengerId suggested =
     \<lparr>o_id = i, o_passengerId = passengerId, o_fromAddress = ''A'', o_toAddress = ''B'',
      o_suggestedPrice = suggested, o_finalPrice = None, o_status = Some ''pending'',
      o_acceptedDriverId = None\<rparr>"

definition offer_row :: "int \<Rightarrow> int \<Rightarrow> int \<Rightarrow> price \<Rightarrow> driverOffer" where
  "offer_row i orderId driverId offered =
     \<lparr>off_id = i, off_orderId = orderId, off_driverId = driverId, off_offeredPrice = offered,
      off_status = Some ''pending'', off_message = None\<rparr>"

definition verified_db :: db where
  "verified_db =
     \<lparr>passengers = [passenger_row 1 ''p1''],
      drivers = [driver_row 1 ''d1'' True, driver_row 2 ''d2'' True, driver_row 3 ''d3'' False],
      driverDocuments =
        [document_row 1 1 ''license'' ''approved'',
         document_row 2 1 ''vehicle_registration'' ''approved'',
         document_row 3 2 ''license'' ''approved'',
         document_row 4 2 ''vehicle_registration'' ''approved''],
      orders = [], driverOffers = [], priceNegotiations = [], ratings = [],
      seq_passengers = 1, seq_drivers = 3, seq_driverDocuments = 4, seq_orders = 0,
      seq_driverOffers = 0, seq_priceNegotiations = 0, seq_ratings = 0\<rparr>"

definition market_db :: db where
  "market_db =
     verified_db\<lparr>orders := [order_row 1 1 500, order_row 2 1 300],
                 driverOffers := [offer_row 1 1 1 600, offer_row 2 1 2 550],
                 seq_orders := 2, seq_driverOffers := 2\<rparr>"

text \<open>
  D1, verified, has submitted the licence again, which is pending since, and D3 a first
  licence: documents 1 and 5 await a decision.
\<close>

definition stale_db :: db where
  "stale_db =
     verified_db\<lparr>driverDocuments :=
         [(document_row 1 1 ''license'' ''pending'')\<lparr>doc_documentData := Some renewed_document\<rparr>,
          document_row 2 1 ''vehicle_registration'' ''approved'',
          document_row 3 2 ''license'' ''approved'',
          document_row 4 2 ''vehicle_registration'' ''approved'',
          (document_row 5 3 ''license'' ''pending'')\<lparr>doc_documentData := Some renewed_document\<rparr>],
       seq_driverDocuments := 5\<rparr>"

text \<open>The passenger has countered D1's offer on order 1 with 450.\<close>

definition negotiation_row :: "int \<Rightarrow> int \<Rightarrow> int \<Rightarrow> int \<Rightarrow> price \<Rightarrow> priceNegotiation" where
  "negotiation_row i orderId passengerId driverId proposed =
     \<lparr>n_id = i, n_orderId = orderId, n_fromUserId = passengerId, n_fromUserType = ''passenger'',
      n_toUserId = driverId, n_toUserType = ''driver'', n_proposedPrice = proposed,
      n_status = Some ''pending''\<rparr>"

definition negotiating_db :: db where
  "negotiating_db =
     market_db\<lparr>priceNegotiations := [negotiation_row 1 1 1 1 450], seq_priceNegotiations := 1\<rparr>"

text \<open>
  D1's licence is decided again and rejected. D1, whose offer on order 1 stands, is not
  verified any more.
\<close>

definition deverified_db :: db where
  "deverified_db =
     market_db\<lparr>drivers := [driver_row 1 ''d1'' False, driver_row 2 ''d2'' True,
                            driver_row 3 ''d3'' False],
               driverDocuments :=
                 [(document_row 1 1 ''license'' ''rejected'')\<lparr>doc_rejectionReason := Some ''expired''\<rparr>,
                  document_row 2 1 ''vehicle_registration'' ''approved'',
                  document_row 3 2 ''license'' ''approved'',
                  document_row 4 2 ''vehicle_registration'' ''approved'']\<rparr>"

section \<open>The words of the rating claims\<close>

text \<open>
  The conditions the specification puts on \<open>rateRide\<close>: the order referred to, the caller's
  profile in the role claimed, whether the caller is the party the order records for that
  role, and whether a rating of the order from the caller is stored. A user is a profile
  in a role: the passengers and the drivers are numbered apart, each table from 1, so the
  first passenger and the first driver bear the same number. A rating of an order that is
  stored under the caller's number and the other role is the namesake's, not the caller's.
\<close>

definition orderOf :: "db \<Rightarrow> int \<Rightarrow> order option" where
  "orderOf s orderId =
     (case filter (\<lambda>r. o_id r = orderId) (orders s) of [] \<Rightarrow> None | orderData # _ \<Rightarrow> Some orderData)"

definition callerId :: "db \<Rightarrow> string \<Rightarrow> userType \<Rightarrow> int option" where
  "callerId s telegramId userType =
     (case userType of
        Passenger \<Rightarrow>
          (case filter (\<lambda>p. p_telegramId p = telegramId) (passengers s) of
             [] \<Rightarrow> None | passenger # _ \<Rightarrow> Some (p_id passenger))
      | Driver \<Rightarrow>
          (case filter (\<lambda>d. d_telegramId d = telegramId) (drivers s) of
             [] \<Rightarrow> None | driver # _ \<Rightarrow> Some (d_id driver)))"

definition recordedParty :: "order \<Rightarrow> userType \<Rightarrow> int \<Rightarrow> bool" where
  "recordedParty orderData userType userId =
     (case userType of
        Passenger \<Rightarrow> o_passengerId orderData = userId
      | Driver \<Rightarrow> o_acceptedDriverId orderData = Some userId)"

definition alreadyRated :: "db \<Rightarrow> int \<Rightarrow> int \<Rightarrow> userType \<Rightarrow> bool" where
  "alreadyRated s orderId userId userType =
     list_ex (\<lambda>r. r_orderId r = orderId \<and> r_fromUserId r = userId
                  \<and> r_fromUserType r = userType_text userType) (ratings s)"

definition namesakeRated :: "db \<Rightarrow> int \<Rightarrow> int \<Rightarrow> userType \<Rightarrow> bool" where
  "namesakeRated s orderId userId userType =
     list_ex (\<lambda>r. r_orderId r = orderId \<and> r_fromUserId r = userId
                  \<and> r_fromUserType r \<noteq> userType_text userType) (ratings s)"

text \<open>The order is accepted by driver 2 at 550: the scenario after D2's offer is accepted.\<close>

definition accepted_order :: "int \<Rightarrow> int \<Rightarrow> price \<Rightarrow> int \<Rightarrow> price \<Rightarrow> order" where
  "accepted_order i passengerId suggested driverId final =
     (order_row i passengerId suggested)\<lparr>o_status := Some ''accepted'',
        o_acceptedDriverId := Some driverId, o_finalPrice := Some final\<rparr>"

definition accepted_offer :: "int \<Rightarrow> int \<Rightarrow> int \<Rightarrow> price \<Rightarrow> driverOffer" where
  "accepted_offer i orderId driverId offered =
     (offer_row i orderId driverId offered)\<lparr>off_status := Some ''accepted''\<rparr>"

definition accepted_db :: db where
  "accepted_db =
     market_db\<lparr>orders := [accepted_order 1 1 500 2 550, order_row 2 1 300],
               driverOffers := [offer_row 1 1 1 600, accepted_offer 2 1 2 550]\<rparr>"

text \<open>The passenger has rated the ride with five stars; D2's profile shows one ride.\<close>

definition rated_driver :: "string \<Rightarrow> int \<Rightarrow> driver" where
  "rated_driver mean rides =
     (driver_row 2 ''d2'' True)\<lparr>d_rating := Some mean, d_totalRides := Some rides\<rparr>"

definition rating_row ::
  "int \<Rightarrow> int \<Rightarrow> userType \<Rightarrow> int \<Rightarrow> int \<Rightarrow> int \<Rightarrow> string option \<Rightarrow> rating" where
  "rating_row i orderId fromUserType fromUserId toUserId stars comment =
     \<lparr>r_id = i, r_orderId = orderId, r_fromUserId = fromUserId,
      r_fromUserType = userType_text fromUserType, r_toUserId = toUserId,
      r_toUserType = userType_text (counterpart fromUserType), r_rating = stars,
      r_comment = comment\<rparr>"

definition rated_db :: db where
  "rated_db =
     accepted_db\<lparr>drivers := [driver_row 1 ''d1'' True, rated_driver ''5.00'' 1,
                              driver_row 3 ''d3'' False],
                 ratings := [rating_row 1 1 Passenger 1 2 5 (Some ''good'')],
                 seq_ratings := 1\<rparr>"

text \<open>The rating history of a user in a role: every score ever received, oldest first.\<close>

definition scoresOf :: "db \<Rightarrow> int \<Rightarrow> userType \<Rightarrow> int list" where
  "scoresOf s userId role =
     map r_rating (filter (\<lambda>r. r_toUserId r = userId \<and> r_toUserType r = userType_text role) (ratings s))"

text \<open>
  A second passenger has registered. D2 has driven the first passenger's second order too,
  rated with four stars, and has been accepted for a third order, which is not rated yet:
  D2's profile shows the mean of 5 and 4.
\<close>

definition served_db :: db where
  "served_db =
     rated_db\<lparr>passengers := [passenger_row 1 ''p1'', passenger_row 2 ''p2''],
              drivers := [driver_row 1 ''d1'' True, rated_driver ''4.50'' 2,
                          driver_row 3 ''d3'' False],
              orders := [accepted_order 1 1 500 2 550, accepted_order 2 1 300 2 320,
                         accepted_order 3 1 400 2 420],
              driverOffers := [offer_row 1 1 1 600, accepted_offer 2 1 2 550,
                               accepted_offer 3 2 2 320, accepted_offer 4 3 2 420],
              ratings := [rating_row 1 1 Passenger 1 2 5 (Some ''good''),
                          rating_row 2 2 Passenger 1 2 4 None],
              seq_passengers := 2, seq_orders := 3, seq_driverOffers := 4, seq_ratings := 2\<rparr>"

text \<open>
  The state in which \<^verbatim>\<open>rateRideTool\<close> calls \<^verbatim>\<open>updateUserRating\<close> when the passenger rates the
  third order with three stars: the rating is stored, D2's history is 5, 4, 3, and D2's
  profile is not written yet.
\<close>

definition history_db :: db where
  "history_db =
     served_db\<lparr>ratings := ratings served_db @ [rating_row 3 3 Passenger 1 2 3 (Some ''late'')],
               seq_ratings := 3\<rparr>"

text \<open>
  The same for D2 rating the first passenger, for the first order, with four stars: the
  passenger's first rating is stored and the passenger's profile is not written yet.
\<close>

definition praised_db :: db where
  "praised_db =
     served_db\<lparr>ratings := ratings served_db @ [rating_row 3 1 Driver 2 1 4 None],
               seq_ratings := 3\<rparr>"


section \<open>Updates and selections\<close>

lemma length_update_where [simp]: "length (update_where P g rows) = length rows"
  by (simp add: update_where_def)

lemma nth_update_where:
  "i < length rows \<Longrightarrow>
   update_where P g rows ! i = (if P (rows ! i) then g (rows ! i) else rows ! i)"
  by (simp add: update_where_def)

lemma ball_update_where:
  "(\<forall>r' \<in> set (update_where P g rows). Q r') = (\<forall>r \<in> set rows. Q (if P r then g r else r))"
  by (induction rows) (simp_all add: update_where_def)

lemma filter_update_where:
  "(\<And>r. Q (g r) = Q r) \<Longrightarrow>
   filter Q (update_where P g rows) = update_where P g (filter Q rows)"
  by (induction rows) (simp_all add: update_where_def)

lemma update_where_none: "filter P rows = [] \<Longrightarrow> update_where P g rows = rows"
  by (induction rows) (simp_all add: update_where_def split: if_splits)

lemma update_where_Cons:
  "update_where P g (r # rows) = (if P r then g r else r) # update_where P g rows"
  by (simp add: update_where_def)

lemma update_where_Nil [simp]: "update_where P g [] = []"
  by (simp add: update_where_def)

text \<open>The numbers of the scenarios, as the store takes or refuses them.\<close>

lemma asInteger_of_int:
  "asInteger (of_int k) = (if - 2147483648 \<le> k \<and> k \<le> 2147483647 then Some k else None)"
  by (simp add: asInteger_def)

lemma asInteger_values:
  "asInteger 1 = Some 1" "asInteger 2 = Some 2" "asInteger 3 = Some 3" "asInteger 4 = Some 4"
  "asInteger 5 = Some 5" "asInteger 9 = Some 9"
  "asInteger 2147483648 = None"
  by (simp_all add: asInteger_def)

lemma asInteger_fraction: "asInteger (9 / 2) = None"
proof -
  have "\<lfloor>9 / 2 :: rat\<rfloor> = 4" by (rule floor_unique) simp_all
  then show ?thesis by (simp add: asInteger_def)
qed

lemma fitsDecimal_values:
  "fitsDecimal 300" "fitsDecimal 320" "fitsDecimal 400" "fitsDecimal 420" "fitsDecimal 500"
  "fitsDecimal 550" "fitsDecimal 600" "fitsDecimal 700" "\<not> fitsDecimal 1000000"
  by (simp_all add: fitsDecimal_def)

text \<open>The averages of the scenarios, computed step by step.\<close>

lemma bits_values:
  "bits 1 = 1" "bits 2 = 2" "bits 3 = 2" "bits 4 = 3" "bits 5 = 3" "bits 9 = 4" "bits 12 = 4"
  by (simp_all add: bits.simps)

lemma js_sum_values:
  "js_sum [5, 4, 3] = 12" "js_sum [5, 4] = 9" "js_sum [5] = 5" "js_sum [4] = 4"
  by (simp_all add: js_sum_def round53_def)

lemma scale_values:
  "scale 12 3 (- 51) = (27021597764222976, 3)"
  "scale 12 3 (- 50) = (13510798882111488, 3)"
  "scale 9 2 (- 51) = (20266198323167232, 2)"
  "scale 9 2 (- 50) = (10133099161583616, 2)"
  "scale 5 1 (- 51) = (11258999068426240, 1)"
  "scale 5 1 (- 50) = (5629499534213120, 1)"
  "scale 4 1 (- 51) = (9007199254740992, 1)"
  "scale 4 1 (- 50) = (4503599627370496, 1)"
  by (simp_all add: scale_def)

lemma roundEven_values:
  "roundEven (13510798882111488, 3) = 4503599627370496"
  "roundEven (10133099161583616, 2) = 5066549580791808"
  "roundEven (5629499534213120, 1) = 5629499534213120"
  "roundEven (4503599627370496, 1) = 4503599627370496"
  by (simp_all add: roundEven_def)

lemma toDouble_12_3: "toDouble 12 3 = (4503599627370496, - 50)"
  by (simp add: toDouble_def bits_values scale_values roundEven_values)

lemma toDouble_9_2: "toDouble 9 2 = (5066549580791808, - 50)"
  by (simp add: toDouble_def bits_values scale_values roundEven_values)

lemma toDouble_5_1: "toDouble 5 1 = (5629499534213120, - 50)"
  by (simp add: toDouble_def bits_values scale_values roundEven_values del: One_nat_def)

lemma toDouble_4_1: "toDouble 4 1 = (4503599627370496, - 50)"
  by (simp add: toDouble_def bits_values scale_values roundEven_values del: One_nat_def)

lemmas toDouble_values =
  toDouble_12_3 toDouble_9_2 toDouble_5_1 [simplified] toDouble_4_1 [simplified]

lemma hundredths_values:
  "hundredths 4503599627370496 (- 50) = 400"
  "hundredths 5629499534213120 (- 50) = 500"
  "hundredths 5066549580791808 (- 50) = 450"
  by (simp_all add: hundredths_def)

lemma fixed2_values: "fixed2 400 = ''4.00''" "fixed2 500 = ''5.00''" "fixed2 450 = ''4.50''"
  by (simp_all add: fixed2_def digits.simps)

lemma toFixed2_5_4_3: "toFixed2 (js_div (js_sum [5, 4, 3]) 3) = ''4.00''"
  by (simp add: js_div_def toFixed2_def js_sum_values toDouble_values hundredths_values
      fixed2_values)

lemma toFixed2_5_4: "toFixed2 (js_div (js_sum [5, 4]) 2) = ''4.50''"
  by (simp add: js_div_def toFixed2_def js_sum_values toDouble_values hundredths_values
      fixed2_values)

lemma toFixed2_counted:
  "toFixed2 (js_div (js_sum [5, 4]) (Suc (Suc 0))) = ''4.50''"
  "toFixed2 (js_div (js_sum [5, 4, 3]) (Suc (Suc (Suc 0)))) = ''4.00''"
  using toFixed2_5_4 toFixed2_5_4_3 unfolding numeral_2_eq_2 numeral_3_eq_3 by this+

lemma toFixed2_single:
  "toFixed2 (js_div (js_sum [5]) (Suc 0)) = ''5.00''"
  "toFixed2 (js_div (js_sum [4]) (Suc 0)) = ''4.00''"
  by (simp_all add: js_div_def toFixed2_def js_sum_values toDouble_values hundredths_values
      fixed2_values)

text \<open>The two states are what the tools themselves leave, called on the empty database.\<close>

lemma verified_db_reachable:
  "verified_db =
     snd (processDocumentVerification (snd (processDocumentVerification
       (snd (processDocumentVerification (snd (processDocumentVerification
         (snd (uploadDocument (snd (uploadDocument (snd (uploadDocument (snd (uploadDocument
           (snd (registerDriver (snd (registerDriver (snd (registerDriver
             (snd (registerPassenger empty_db ''p1'' ''Pavel'' ''100''))
             ''d1'' ''Ivan'' ''200'' ''Lada'' ''white'' ''A001''))
             ''d2'' ''Ivan'' ''200'' ''Lada'' ''white'' ''A001''))
             ''d3'' ''Ivan'' ''200'' ''Lada'' ''white'' ''A001''))
           ''d1'' License sample_document)) ''d1'' VehicleRegistration sample_document))
           ''d2'' License sample_document)) ''d2'' VehicleRegistration sample_document))
         1 True None)) 2 True None)) 3 True None)) 4 True None)"
  by (simp add: verified_db_def empty_db_def registerPassenger_def registerDriver_def
     uploadDocument_def processDocumentVerification_def checkAndUpdateDriverVerification_def
     hasAllRequiredApproved_def requiredDocs_def update_where_def
     driver_row_def document_row_def passenger_row_def Let_def)

lemma market_db_reachable:
  "market_db =
     snd (makeOffer (snd (makeOffer (snd (createOrder (snd (createOrder verified_db
       ''p1'' ''A'' ''B'' 500)) ''p1'' ''A'' ''B'' 300)) ''d1'' 1 600 None)) ''d2'' 1 550 None)"
  by (simp add: market_db_def verified_db_def createOrder_def makeOffer_def
     asInteger_values fitsDecimal_values
     driver_row_def document_row_def passenger_row_def order_row_def offer_row_def Let_def)

lemma negotiating_db_reachable:
  "negotiating_db = snd (makeCounterOffer market_db 1 ''p1'' 1 450)"
  by (simp add: negotiating_db_def market_db_def verified_db_def makeCounterOffer_def
     negotiation_row_def passenger_row_def Let_def)

lemma stale_db_reachable:
  "stale_db = snd (uploadDocument (snd (uploadDocument verified_db ''d1'' License renewed_document))
                    ''d3'' License renewed_document)"
  by (simp add: stale_db_def verified_db_def uploadDocument_def update_where_def
     driver_row_def document_row_def Let_def)

lemma deverified_db_reachable:
  "deverified_db = snd (processDocumentVerification market_db 1 False (Some ''expired''))"
  by (simp add: deverified_db_def market_db_def verified_db_def processDocumentVerification_def
     checkAndUpdateDriverVerification_def hasAllRequiredApproved_def requiredDocs_def
     update_where_def driver_row_def document_row_def Let_def)

lemma accepted_db_reachable: "accepted_db = snd (acceptOffer market_db 2 1)"
  by (simp add: accepted_db_def market_db_def verified_db_def acceptOffer_def update_where_def
     asInteger_values accepted_order_def accepted_offer_def
     order_row_def offer_row_def driver_row_def Let_def)


text \<open>The later states, one call after the other.\<close>

lemma served_db_reachable:
  "served_db =
     snd (acceptOffer (snd (makeOffer (snd (createOrder
       (snd (rateRide (snd (acceptOffer (snd (makeOffer
         (snd (registerPassenger rated_db ''p2'' ''Pavel'' ''100''))
         ''d2'' 2 320 None)) 3 2)) ''p1'' 2 Passenger 4 None))
       ''p1'' ''A'' ''B'' 400)) ''d2'' 3 420 None)) 4 3)"
proof -
  define s1 where "s1 = rated_db\<lparr>passengers := [passenger_row 1 ''p1'', passenger_row 2 ''p2''],
      seq_passengers := 2\<rparr>"
  define s2 where "s2 = s1\<lparr>driverOffers := [offer_row 1 1 1 600, accepted_offer 2 1 2 550,
      offer_row 3 2 2 320], seq_driverOffers := 3\<rparr>"
  define s3 where "s3 = s2\<lparr>orders := [accepted_order 1 1 500 2 550, accepted_order 2 1 300 2 320],
      driverOffers := [offer_row 1 1 1 600, accepted_offer 2 1 2 550, accepted_offer 3 2 2 320]\<rparr>"
  define s4 where "s4 = s3\<lparr>drivers := [driver_row 1 ''d1'' True, rated_driver ''4.50'' 2,
        driver_row 3 ''d3'' False],
      ratings := [rating_row 1 1 Passenger 1 2 5 (Some ''good''), rating_row 2 2 Passenger 1 2 4 None],
      seq_ratings := 2\<rparr>"
  define s5 where "s5 = s4\<lparr>orders := [accepted_order 1 1 500 2 550, accepted_order 2 1 300 2 320,
      order_row 3 1 400], seq_orders := 3\<rparr>"
  define s6 where "s6 = s5\<lparr>driverOffers := [offer_row 1 1 1 600, accepted_offer 2 1 2 550,
      accepted_offer 3 2 2 320, offer_row 4 3 2 420], seq_driverOffers := 4\<rparr>"
  have 1: "snd (registerPassenger rated_db ''p2'' ''Pavel'' ''100'') = s1"
    by (simp add: s1_def registerPassenger_def rated_db_def accepted_db_def market_db_def
        verified_db_def passenger_row_def Let_def)
  have 2: "snd (makeOffer s1 ''d2'' 2 320 None) = s2"
    by (simp add: s2_def s1_def makeOffer_def asInteger_values fitsDecimal_values
        rated_db_def accepted_db_def market_db_def verified_db_def rated_driver_def
        driver_row_def offer_row_def accepted_offer_def Let_def)
  have 3: "snd (acceptOffer s2 3 2) = s3"
    by (simp add: s3_def s2_def s1_def acceptOffer_def asInteger_values update_where_def
        rated_db_def accepted_db_def market_db_def verified_db_def
        accepted_order_def accepted_offer_def order_row_def offer_row_def Let_def)
  have 4: "snd (rateRide s3 ''p1'' 2 Passenger 4 None) = s4"
    by (simp add: s4_def s3_def s2_def s1_def rateRide_def ratingParties_def updateUserRating_def
        update_where_def asInteger_values rated_db_def accepted_db_def market_db_def verified_db_def
        accepted_order_def rated_driver_def rating_row_def
        passenger_row_def driver_row_def order_row_def Let_def toFixed2_counted)
  have 5: "snd (createOrder s4 ''p1'' ''A'' ''B'' 400) = s5"
    by (simp add: s5_def s4_def s3_def s2_def s1_def createOrder_def fitsDecimal_values
        rated_db_def accepted_db_def market_db_def verified_db_def
        passenger_row_def order_row_def Let_def)
  have 6: "snd (makeOffer s5 ''d2'' 3 420 None) = s6"
    by (simp add: s6_def s5_def s4_def s3_def s2_def s1_def makeOffer_def asInteger_values
        fitsDecimal_values rated_db_def accepted_db_def market_db_def verified_db_def
        rated_driver_def driver_row_def offer_row_def accepted_offer_def Let_def)
  have 7: "snd (acceptOffer s6 4 3) = served_db"
    by (simp add: served_db_def s6_def s5_def s4_def s3_def s2_def s1_def acceptOffer_def
        asInteger_values update_where_def rated_db_def accepted_db_def market_db_def verified_db_def
        accepted_order_def accepted_offer_def order_row_def offer_row_def Let_def)
  show ?thesis unfolding 1 2 3 4 5 6 7 ..
qed

lemma history_db_reachable:
  "rateRide served_db ''p1'' 3 Passenger 3 (Some ''late'') =
     (Inr (), updateUserRating history_db 2 ''driver'')"
  by (simp add: rateRide_def ratingParties_def asInteger_values history_db_def served_db_def
      rating_row_def accepted_order_def order_row_def passenger_row_def Let_def)

lemma praised_db_reachable:
  "rateRide served_db ''d2'' 1 Driver 4 None =
     (Inr (), updateUserRating praised_db 1 ''passenger'')"
  by (simp add: rateRide_def ratingParties_def asInteger_values praised_db_def served_db_def
      rating_row_def accepted_order_def order_row_def rated_driver_def driver_row_def Let_def)

section \<open>Accepting an offer\<close>

text \<open>The four ways through \<^verbatim>\<open>acceptOfferTool\<close>.\<close>

lemma acceptOffer_refused_offer:
  "asInteger offerId = None \<Longrightarrow> acceptOffer s offerId orderId = (Inl CaughtError, s)"
  by (simp add: acceptOffer_def)

lemma acceptOffer_missing:
  "asInteger offerId = Some offerKey \<Longrightarrow>
   filter (\<lambda>f. off_id f = offerKey) (driverOffers s) = [] \<Longrightarrow>
   acceptOffer s offerId orderId = (Inl OfferNotFound, s)"
  by (simp add: acceptOffer_def)

lemma acceptOffer_refused_order:
  "asInteger offerId = Some offerKey \<Longrightarrow>
   filter (\<lambda>f. off_id f = offerKey) (driverOffers s) = offerData # rest \<Longrightarrow>
   asInteger orderId = None \<Longrightarrow>
   acceptOffer s offerId orderId = (Inl CaughtError, s)"
  by (simp add: acceptOffer_def)

lemma acceptOffer_found:
  assumes "asInteger offerId = Some offerKey"
    and "filter (\<lambda>f. off_id f = offerKey) (driverOffers s) = offerData # rest"
    and "asInteger orderId = Some orderKey"
  shows "\<exists>info. acceptOffer s offerId orderId =
     (Inr info,
      s\<lparr>orders :=
           update_where (\<lambda>r. o_id r = orderKey)
             (\<lambda>r. r\<lparr>o_status := Some ''accepted'',
                    o_acceptedDriverId := Some (off_driverId offerData),
                    o_finalPrice := Some (off_offeredPrice offerData)\<rparr>) (orders s),
        driverOffers :=
           update_where (\<lambda>f. off_id f = offerKey) (\<lambda>f. f\<lparr>off_status := Some ''accepted''\<rparr>)
             (driverOffers s)\<rparr>)"
  using assms by (simp add: acceptOffer_def Let_def)

text \<open>
  What a call on an existing offer leaves, row by row: the order table and the offer table keep
  their rows in place; an order row with the id given is stamped from the offer, an offer row
  with the offer's id is accepted, every other row of the two tables is the row it was, and
  nothing else in the database differs. A later lookup of an offer finds the row it found
  before, with at most the status changed.
\<close>

lemma acceptOffer_success:
  assumes key: "asInteger offerId = Some offerKey"
    and found: "filter (\<lambda>f. off_id f = offerKey) (driverOffers s) = offerData # rest"
    and order: "asInteger orderId = Some orderKey"
  obtains info s' where
    "acceptOffer s offerId orderId = (Inr info, s')"
    "length (orders s') = length (orders s)"
    "\<forall>i < length (orders s).
        orders s' ! i =
          (if o_id (orders s ! i) = orderKey
           then (orders s ! i)\<lparr>o_status := Some ''accepted'',
                                o_acceptedDriverId := Some (off_driverId offerData),
                                o_finalPrice := Some (off_offeredPrice offerData)\<rparr>
           else orders s ! i)"
    "length (driverOffers s') = length (driverOffers s)"
    "\<forall>i < length (driverOffers s).
        driverOffers s' ! i =
          (if off_id (driverOffers s ! i) = offerKey
           then (driverOffers s ! i)\<lparr>off_status := Some ''accepted''\<rparr>
           else driverOffers s ! i)"
    "s' = s\<lparr>orders := orders s', driverOffers := driverOffers s'\<rparr>"
    "\<forall>k. filter (\<lambda>f. off_id f = k) (driverOffers s') =
       update_where (\<lambda>f. off_id f = offerKey) (\<lambda>f. f\<lparr>off_status := Some ''accepted''\<rparr>)
         (filter (\<lambda>f. off_id f = k) (driverOffers s))"
proof -
  define s' where "s' = s\<lparr>orders :=
           update_where (\<lambda>r. o_id r = orderKey)
             (\<lambda>r. r\<lparr>o_status := Some ''accepted'',
                    o_acceptedDriverId := Some (off_driverId offerData),
                    o_finalPrice := Some (off_offeredPrice offerData)\<rparr>) (orders s),
        driverOffers :=
           update_where (\<lambda>f. off_id f = offerKey) (\<lambda>f. f\<lparr>off_status := Some ''accepted''\<rparr>)
             (driverOffers s)\<rparr>"
  from acceptOffer_found [OF key found order] obtain info where
    run: "acceptOffer s offerId orderId = (Inr info, s')"
    unfolding s'_def by blast
  have o: "orders s' = update_where (\<lambda>r. o_id r = orderKey)
             (\<lambda>r. r\<lparr>o_status := Some ''accepted'',
                    o_acceptedDriverId := Some (off_driverId offerData),
                    o_finalPrice := Some (off_offeredPrice offerData)\<rparr>) (orders s)"
    and f: "driverOffers s' =
      update_where (\<lambda>f. off_id f = offerKey) (\<lambda>f. f\<lparr>off_status := Some ''accepted''\<rparr>) (driverOffers s)"
    by (simp_all add: s'_def)
  have 1: "length (orders s') = length (orders s)"
    unfolding o by simp
  have 2: "\<forall>i < length (orders s).
        orders s' ! i =
          (if o_id (orders s ! i) = orderKey
           then (orders s ! i)\<lparr>o_status := Some ''accepted'',
                                o_acceptedDriverId := Some (off_driverId offerData),
                                o_finalPrice := Some (off_offeredPrice offerData)\<rparr>
           else orders s ! i)"
    unfolding o by (simp add: nth_update_where)
  have 3: "length (driverOffers s') = length (driverOffers s)"
    unfolding f by simp
  have 4: "\<forall>i < length (driverOffers s).
        driverOffers s' ! i =
          (if off_id (driverOffers s ! i) = offerKey
           then (driverOffers s ! i)\<lparr>off_status := Some ''accepted''\<rparr>
           else driverOffers s ! i)"
    unfolding f by (simp add: nth_update_where)
  have 5: "s' = s\<lparr>orders := orders s', driverOffers := driverOffers s'\<rparr>"
    by (simp add: s'_def)
  have "filter (\<lambda>f. off_id f = k) (driverOffers s') =
       update_where (\<lambda>f. off_id f = offerKey) (\<lambda>f. f\<lparr>off_status := Some ''accepted''\<rparr>)
         (filter (\<lambda>f. off_id f = k) (driverOffers s))" for k
    unfolding f by (rule filter_update_where) simp
  then have 6: "\<forall>k. filter (\<lambda>f. off_id f = k) (driverOffers s') =
       update_where (\<lambda>f. off_id f = offerKey) (\<lambda>f. f\<lparr>off_status := Some ''accepted''\<rparr>)
         (filter (\<lambda>f. off_id f = k) (driverOffers s))" ..
  from run 1 2 3 4 5 6 show thesis by (rule that)
qed

text \<open>
  C3, as the code has it. \<^verbatim>\<open>acceptOfferTool\<close> hands both ids to the store. An \<^verbatim>\<open>offerId\<close> the id
  column cannot hold makes the select raise: the tool fails with its general message, not with
  the not-found one. An \<^verbatim>\<open>offerId\<close> the column can hold and no offer has: the not-found
  failure. When an offer has the id: an \<^verbatim>\<open>orderId\<close> the column cannot hold makes the update of
  the order raise, and the tool fails with its general message; with any other \<^verbatim>\<open>orderId\<close> the
  call succeeds. In every failure the database is the one given. After a success the order
  table and the offer table have the rows they had, in place: each order row with the
  \<^verbatim>\<open>orderId\<close> given is accepted, with the offer's driver and the offer's price; each offer row
  with the \<^verbatim>\<open>offerId\<close> is accepted; every other row of the two tables, the sibling offers on the
  same order among them, is the row it was; and no other table changes.
\<close>

theorem acceptOffer_effect:
  "(asInteger offerId = None \<longrightarrow>
      acceptOffer s offerId orderId = (Inl CaughtError, s) \<and> kind CaughtError = Internal)
   \<and> (\<forall>offerKey. asInteger offerId = Some offerKey \<longrightarrow>
        (filter (\<lambda>f. off_id f = offerKey) (driverOffers s) = [] \<longrightarrow>
           acceptOffer s offerId orderId = (Inl OfferNotFound, s) \<and> kind OfferNotFound = NotFound)
        \<and> (\<forall>offerData rest.
             filter (\<lambda>f. off_id f = offerKey) (driverOffers s) = offerData # rest \<longrightarrow>
             (asInteger orderId = None \<longrightarrow>
                acceptOffer s offerId orderId = (Inl CaughtError, s))
             \<and> (\<forall>orderKey. asInteger orderId = Some orderKey \<longrightarrow>
                  (\<exists>info s'. acceptOffer s offerId orderId = (Inr info, s')
                     \<and> length (orders s') = length (orders s)
                     \<and> (\<forall>i < length (orders s).
                          orders s' ! i =
                            (if o_id (orders s ! i) = orderKey
                             then (orders s ! i)\<lparr>o_status := Some ''accepted'',
                                    o_acceptedDriverId := Some (off_driverId offerData),
                                    o_finalPrice := Some (off_offeredPrice offerData)\<rparr>
                             else orders s ! i))
                     \<and> length (driverOffers s') = length (driverOffers s)
                     \<and> (\<forall>i < length (driverOffers s).
                          driverOffers s' ! i =
                            (if off_id (driverOffers s ! i) = offerKey
                             then (driverOffers s ! i)\<lparr>off_status := Some ''accepted''\<rparr>
                             else driverOffers s ! i))
                     \<and> s' = s\<lparr>orders := orders s', driverOffers := driverOffers s'\<rparr>))))"
proof (intro conjI impI allI)
  assume "asInteger offerId = None"
  then show "acceptOffer s offerId orderId = (Inl CaughtError, s)"
    by (rule acceptOffer_refused_offer)
next
  show "kind CaughtError = Internal" by simp
next
  fix offerKey
  assume "asInteger offerId = Some offerKey"
    and "filter (\<lambda>f. off_id f = offerKey) (driverOffers s) = []"
  then show "acceptOffer s offerId orderId = (Inl OfferNotFound, s)"
    by (rule acceptOffer_missing)
next
  show "kind OfferNotFound = NotFound" by simp
next
  fix offerKey offerData rest
  assume "asInteger offerId = Some offerKey"
    and "filter (\<lambda>f. off_id f = offerKey) (driverOffers s) = offerData # rest"
    and "asInteger orderId = None"
  then show "acceptOffer s offerId orderId = (Inl CaughtError, s)"
    by (rule acceptOffer_refused_order)
next
  fix offerKey offerData rest orderKey
  assume key: "asInteger offerId = Some offerKey"
    and found: "filter (\<lambda>f. off_id f = offerKey) (driverOffers s) = offerData # rest"
    and order: "asInteger orderId = Some orderKey"
  from acceptOffer_success [OF key found order] obtain info s' where
    run: "acceptOffer s offerId orderId = (Inr info, s')"
    and len_o: "length (orders s') = length (orders s)"
    and nth_o: "\<forall>i < length (orders s).
        orders s' ! i =
          (if o_id (orders s ! i) = orderKey
           then (orders s ! i)\<lparr>o_status := Some ''accepted'',
                                o_acceptedDriverId := Some (off_driverId offerData),
                                o_finalPrice := Some (off_offeredPrice offerData)\<rparr>
           else orders s ! i)"
    and len_f: "length (driverOffers s') = length (driverOffers s)"
    and nth_f: "\<forall>i < length (driverOffers s).
        driverOffers s' ! i =
          (if off_id (driverOffers s ! i) = offerKey
           then (driverOffers s ! i)\<lparr>off_status := Some ''accepted''\<rparr>
           else driverOffers s ! i)"
    and frame: "s' = s\<lparr>orders := orders s', driverOffers := driverOffers s'\<rparr>"
    by this
  show "\<exists>info s'. acceptOffer s offerId orderId = (Inr info, s')
           \<and> length (orders s') = length (orders s)
           \<and> (\<forall>i < length (orders s).
                orders s' ! i =
                  (if o_id (orders s ! i) = orderKey
                   then (orders s ! i)\<lparr>o_status := Some ''accepted'',
                          o_acceptedDriverId := Some (off_driverId offerData),
                          o_finalPrice := Some (off_offeredPrice offerData)\<rparr>
                   else orders s ! i))
           \<and> length (driverOffers s') = length (driverOffers s)
           \<and> (\<forall>i < length (driverOffers s).
                driverOffers s' ! i =
                  (if off_id (driverOffers s ! i) = offerKey
                   then (driverOffers s ! i)\<lparr>off_status := Some ''accepted''\<rparr>
                   else driverOffers s ! i))
           \<and> s' = s\<lparr>orders := orders s', driverOffers := driverOffers s'\<rparr>"
    by (intro exI conjI) (rule run len_o nth_o len_f nth_f frame)+
qed

text \<open>
  In the scenario: an offer id beyond the column, an offer id no offer has, D2's offer with an
  order id that is not whole, and D2's offer of 550 on order 1 accepted for order 1. After the
  last call order 1 is accepted at 550 with driver 2, order 2 is untouched, D1's offer on the
  same order is still pending, and the database is the one named above.
\<close>

theorem acceptOffer_effect_witness:
  "asInteger 2147483648 = None
   \<and> acceptOffer market_db 2147483648 1 = (Inl CaughtError, market_db)
   \<and> asInteger 9 = Some 9
   \<and> filter (\<lambda>f. off_id f = 9) (driverOffers market_db) = []
   \<and> acceptOffer market_db 9 1 = (Inl OfferNotFound, market_db)
   \<and> asInteger 2 = Some 2
   \<and> filter (\<lambda>f. off_id f = 2) (driverOffers market_db) = [offer_row 2 1 2 550]
   \<and> asInteger (9 / 2) = None
   \<and> acceptOffer market_db 2 (9 / 2) = (Inl CaughtError, market_db)
   \<and> asInteger 1 = Some 1
   \<and> (\<exists>info s'. acceptOffer market_db 2 1 = (Inr info, s')
        \<and> length (orders s') = 2
        \<and> orders s' ! 0 = accepted_order 1 1 500 2 550
        \<and> orders s' ! 1 = order_row 2 1 300
        \<and> length (driverOffers s') = 2
        \<and> driverOffers s' ! 0 = offer_row 1 1 1 600
        \<and> driverOffers s' ! 1 = accepted_offer 2 1 2 550
        \<and> s' = market_db\<lparr>orders := orders s', driverOffers := driverOffers s'\<rparr>)
   \<and> snd (acceptOffer market_db 2 1) = accepted_db"
proof -
  note k = asInteger_values(7) asInteger_values(6) asInteger_values(2) asInteger_fraction
    asInteger_values(1)
  have none: "filter (\<lambda>f. off_id f = 9) (driverOffers market_db) = []"
    and one: "filter (\<lambda>f. off_id f = 2) (driverOffers market_db) = [offer_row 2 1 2 550]"
    by (simp_all add: market_db_def offer_row_def)
  have rows: "length (orders market_db) = 2" "length (driverOffers market_db) = 2"
    "(0::nat) < 2" "(1::nat) < 2"
    by (simp_all add: market_db_def)
  have o0: "(if o_id (orders market_db ! 0) = 1
             then (orders market_db ! 0)\<lparr>o_status := Some ''accepted'',
                    o_acceptedDriverId := Some (off_driverId (offer_row 2 1 2 550)),
                    o_finalPrice := Some (off_offeredPrice (offer_row 2 1 2 550))\<rparr>
             else orders market_db ! 0) = accepted_order 1 1 500 2 550"
    and o1: "(if o_id (orders market_db ! 1) = 1
             then (orders market_db ! 1)\<lparr>o_status := Some ''accepted'',
                    o_acceptedDriverId := Some (off_driverId (offer_row 2 1 2 550)),
                    o_finalPrice := Some (off_offeredPrice (offer_row 2 1 2 550))\<rparr>
             else orders market_db ! 1) = order_row 2 1 300"
    and f0: "(if off_id (driverOffers market_db ! 0) = 2
             then (driverOffers market_db ! 0)\<lparr>off_status := Some ''accepted''\<rparr>
             else driverOffers market_db ! 0) = offer_row 1 1 1 600"
    and f1: "(if off_id (driverOffers market_db ! 1) = 2
             then (driverOffers market_db ! 1)\<lparr>off_status := Some ''accepted''\<rparr>
             else driverOffers market_db ! 1) = accepted_offer 2 1 2 550"
    by (simp_all add: market_db_def accepted_order_def accepted_offer_def order_row_def
        offer_row_def)
  from acceptOffer_effect [of 2147483648 market_db 1, THEN conjunct1, rule_format, OF k(1)]
  have a: "acceptOffer market_db 2147483648 1 = (Inl CaughtError, market_db)"
    by (rule conjunct1)
  from acceptOffer_effect [of 9 market_db 1, THEN conjunct2, rule_format, OF k(2),
      THEN conjunct1, rule_format, OF none]
  have b: "acceptOffer market_db 9 1 = (Inl OfferNotFound, market_db)"
    by (rule conjunct1)
  from acceptOffer_effect [of 2 market_db "9 / 2", THEN conjunct2, rule_format, OF k(3),
      THEN conjunct2, rule_format, OF one, THEN conjunct1, rule_format, OF k(4)]
  have c: "acceptOffer market_db 2 (9 / 2) = (Inl CaughtError, market_db)" .
  from acceptOffer_effect [of 2 market_db 1, THEN conjunct2, rule_format, OF k(3),
      THEN conjunct2, rule_format, OF one, THEN conjunct2, rule_format, OF k(5)]
  obtain info s' where run: "acceptOffer market_db 2 1 = (Inr info, s')"
    and len_o: "length (orders s') = length (orders market_db)"
    and nth_o: "\<forall>i < length (orders market_db).
        orders s' ! i =
          (if o_id (orders market_db ! i) = 1
           then (orders market_db ! i)\<lparr>o_status := Some ''accepted'',
                  o_acceptedDriverId := Some (off_driverId (offer_row 2 1 2 550)),
                  o_finalPrice := Some (off_offeredPrice (offer_row 2 1 2 550))\<rparr>
           else orders market_db ! i)"
    and len_f: "length (driverOffers s') = length (driverOffers market_db)"
    and nth_f: "\<forall>i < length (driverOffers market_db).
        driverOffers s' ! i =
          (if off_id (driverOffers market_db ! i) = 2
           then (driverOffers market_db ! i)\<lparr>off_status := Some ''accepted''\<rparr>
           else driverOffers market_db ! i)"
    and frame: "s' = market_db\<lparr>orders := orders s', driverOffers := driverOffers s'\<rparr>"
    by (elim exE conjE)
  note r0 = nth_o [unfolded rows, rule_format, OF rows(3), unfolded o0]
    and r1 = nth_o [unfolded rows, rule_format, OF rows(4), unfolded o1]
    and g0 = nth_f [unfolded rows, rule_format, OF rows(3), unfolded f0]
    and g1 = nth_f [unfolded rows, rule_format, OF rows(4), unfolded f1]
  have d: "\<exists>info s'. acceptOffer market_db 2 1 = (Inr info, s')
        \<and> length (orders s') = 2
        \<and> orders s' ! 0 = accepted_order 1 1 500 2 550
        \<and> orders s' ! 1 = order_row 2 1 300
        \<and> length (driverOffers s') = 2
        \<and> driverOffers s' ! 0 = offer_row 1 1 1 600
        \<and> driverOffers s' ! 1 = accepted_offer 2 1 2 550
        \<and> s' = market_db\<lparr>orders := orders s', driverOffers := driverOffers s'\<rparr>"
    using run len_o [unfolded rows] r0 r1 len_f [unfolded rows] g0 g1 frame
    by (intro exI conjI)
  have e: "snd (acceptOffer market_db 2 1) = accepted_db"
    by (simp add: accepted_db_reachable)
  from k(1) a k(2) none b k(3) one k(4) c k(5) d e show ?thesis by (intro conjI)
qed

text \<open>
  The claim fails at an id the store cannot read. No offer has the id 2147483648, and the
  call does not fail with the not-found message: the select raises, and the failure is the
  general one of the \<^verbatim>\<open>catch\<close>.
\<close>

theorem acceptOffer_effect_counterexample:
  "map off_id (driverOffers market_db) = [1, 2]
   \<and> fst (acceptOffer market_db 2147483648 1) = Inl CaughtError
   \<and> fst (acceptOffer market_db 2147483648 1) \<noteq> Inl OfferNotFound
   \<and> kind CaughtError \<noteq> NotFound
   \<and> fst (acceptOffer market_db 9 1) = Inl OfferNotFound"
  by (simp add: acceptOffer_def asInteger_values market_db_def offer_row_def)

text \<open>
  C10, as the code has it. \<^verbatim>\<open>acceptOfferTool\<close> never compares the offer's own \<^verbatim>\<open>orderId\<close> with
  the \<^verbatim>\<open>orderId\<close> it is given. A call with an existing offer and another order id that the id
  column can hold succeeds: each order row with the id given is accepted with the offer's
  driver and price, the offer is accepted, every other order and offer row is the row it was,
  the rows of the order the offer was made on among them, and no other table changes.
\<close>

theorem acceptOffer_foreign_order:
  assumes key: "asInteger offerId = Some offerKey"
    and found: "filter (\<lambda>f. off_id f = offerKey) (driverOffers s) = offerData # rest"
    and order: "asInteger orderId = Some orderKey"
    and foreign: "off_orderId offerData \<noteq> orderKey"
  shows "\<exists>info s'. acceptOffer s offerId orderId = (Inr info, s')
           \<and> length (orders s') = length (orders s)
           \<and> (\<forall>i < length (orders s).
                orders s' ! i =
                  (if o_id (orders s ! i) = orderKey
                   then (orders s ! i)\<lparr>o_status := Some ''accepted'',
                          o_acceptedDriverId := Some (off_driverId offerData),
                          o_finalPrice := Some (off_offeredPrice offerData)\<rparr>
                   else orders s ! i))
           \<and> (\<forall>i < length (orders s). o_id (orders s ! i) = off_orderId offerData \<longrightarrow>
                  orders s' ! i = orders s ! i)
           \<and> length (driverOffers s') = length (driverOffers s)
           \<and> (\<forall>i < length (driverOffers s).
                driverOffers s' ! i =
                  (if off_id (driverOffers s ! i) = offerKey
                   then (driverOffers s ! i)\<lparr>off_status := Some ''accepted''\<rparr>
                   else driverOffers s ! i))
           \<and> s' = s\<lparr>orders := orders s', driverOffers := driverOffers s'\<rparr>"
proof -
  from acceptOffer_success [OF key found order] obtain info s' where
    run: "acceptOffer s offerId orderId = (Inr info, s')"
    and len_o: "length (orders s') = length (orders s)"
    and nth_o: "\<forall>i < length (orders s).
        orders s' ! i =
          (if o_id (orders s ! i) = orderKey
           then (orders s ! i)\<lparr>o_status := Some ''accepted'',
                                o_acceptedDriverId := Some (off_driverId offerData),
                                o_finalPrice := Some (off_offeredPrice offerData)\<rparr>
           else orders s ! i)"
    and len_f: "length (driverOffers s') = length (driverOffers s)"
    and nth_f: "\<forall>i < length (driverOffers s).
        driverOffers s' ! i =
          (if off_id (driverOffers s ! i) = offerKey
           then (driverOffers s ! i)\<lparr>off_status := Some ''accepted''\<rparr>
           else driverOffers s ! i)"
    and frame: "s' = s\<lparr>orders := orders s', driverOffers := driverOffers s'\<rparr>"
    by this
  have own: "\<forall>i < length (orders s). o_id (orders s ! i) = off_orderId offerData \<longrightarrow>
                  orders s' ! i = orders s ! i"
    using nth_o foreign by simp
  show ?thesis
    by (intro exI conjI) (rule run len_o nth_o own len_f nth_f frame)+
qed

text \<open>
  D2's offer was made on order 1. Accepted with the id of order 2, it leaves order 2 accepted
  by driver 2 at 550, order 1 pending as it was, and D2's offer accepted.
\<close>

theorem acceptOffer_foreign_order_witness:
  "asInteger 2 = Some 2
   \<and> filter (\<lambda>f. off_id f = 2) (driverOffers market_db) = [offer_row 2 1 2 550]
   \<and> off_orderId (offer_row 2 1 2 550) \<noteq> 2
   \<and> (\<exists>info s'. acceptOffer market_db 2 2 = (Inr info, s')
        \<and> length (orders s') = 2
        \<and> orders s' ! 0 = order_row 1 1 500
        \<and> orders s' ! 1 = accepted_order 2 1 300 2 550
        \<and> length (driverOffers s') = 2
        \<and> driverOffers s' ! 0 = offer_row 1 1 1 600
        \<and> driverOffers s' ! 1 = accepted_offer 2 1 2 550
        \<and> s' = market_db\<lparr>orders := orders s', driverOffers := driverOffers s'\<rparr>)
   \<and> snd (acceptOffer market_db 2 2) =
       market_db\<lparr>orders := [order_row 1 1 500, accepted_order 2 1 300 2 550],
                 driverOffers := [offer_row 1 1 1 600, accepted_offer 2 1 2 550]\<rparr>"
proof -
  note k = asInteger_values(2)
  have one: "filter (\<lambda>f. off_id f = 2) (driverOffers market_db) = [offer_row 2 1 2 550]"
    by (simp add: market_db_def offer_row_def)
  have foreign: "off_orderId (offer_row 2 1 2 550) \<noteq> 2"
    by (simp add: offer_row_def)
  have rows: "length (orders market_db) = 2" "length (driverOffers market_db) = 2"
    "(0::nat) < 2" "(1::nat) < 2"
    by (simp_all add: market_db_def)
  have o0: "(if o_id (orders market_db ! 0) = 2
             then (orders market_db ! 0)\<lparr>o_status := Some ''accepted'',
                    o_acceptedDriverId := Some (off_driverId (offer_row 2 1 2 550)),
                    o_finalPrice := Some (off_offeredPrice (offer_row 2 1 2 550))\<rparr>
             else orders market_db ! 0) = order_row 1 1 500"
    and o1: "(if o_id (orders market_db ! 1) = 2
             then (orders market_db ! 1)\<lparr>o_status := Some ''accepted'',
                    o_acceptedDriverId := Some (off_driverId (offer_row 2 1 2 550)),
                    o_finalPrice := Some (off_offeredPrice (offer_row 2 1 2 550))\<rparr>
             else orders market_db ! 1) = accepted_order 2 1 300 2 550"
    and f0: "(if off_id (driverOffers market_db ! 0) = 2
             then (driverOffers market_db ! 0)\<lparr>off_status := Some ''accepted''\<rparr>
             else driverOffers market_db ! 0) = offer_row 1 1 1 600"
    and f1: "(if off_id (driverOffers market_db ! 1) = 2
             then (driverOffers market_db ! 1)\<lparr>off_status := Some ''accepted''\<rparr>
             else driverOffers market_db ! 1) = accepted_offer 2 1 2 550"
    by (simp_all add: market_db_def accepted_order_def accepted_offer_def order_row_def
        offer_row_def)
  from acceptOffer_foreign_order [OF k one k foreign]
  obtain info s' where run: "acceptOffer market_db 2 2 = (Inr info, s')"
    and len_o: "length (orders s') = length (orders market_db)"
    and nth_o: "\<forall>i < length (orders market_db).
        orders s' ! i =
          (if o_id (orders market_db ! i) = 2
           then (orders market_db ! i)\<lparr>o_status := Some ''accepted'',
                  o_acceptedDriverId := Some (off_driverId (offer_row 2 1 2 550)),
                  o_finalPrice := Some (off_offeredPrice (offer_row 2 1 2 550))\<rparr>
           else orders market_db ! i)"
    and len_f: "length (driverOffers s') = length (driverOffers market_db)"
    and nth_f: "\<forall>i < length (driverOffers market_db).
        driverOffers s' ! i =
          (if off_id (driverOffers market_db ! i) = 2
           then (driverOffers market_db ! i)\<lparr>off_status := Some ''accepted''\<rparr>
           else driverOffers market_db ! i)"
    and frame: "s' = market_db\<lparr>orders := orders s', driverOffers := driverOffers s'\<rparr>"
    by (elim exE conjE)
  note r0 = nth_o [unfolded rows, rule_format, OF rows(3), unfolded o0]
    and r1 = nth_o [unfolded rows, rule_format, OF rows(4), unfolded o1]
    and g0 = nth_f [unfolded rows, rule_format, OF rows(3), unfolded f0]
    and g1 = nth_f [unfolded rows, rule_format, OF rows(4), unfolded f1]
  have d: "\<exists>info s'. acceptOffer market_db 2 2 = (Inr info, s')
        \<and> length (orders s') = 2
        \<and> orders s' ! 0 = order_row 1 1 500
        \<and> orders s' ! 1 = accepted_order 2 1 300 2 550
        \<and> length (driverOffers s') = 2
        \<and> driverOffers s' ! 0 = offer_row 1 1 1 600
        \<and> driverOffers s' ! 1 = accepted_offer 2 1 2 550
        \<and> s' = market_db\<lparr>orders := orders s', driverOffers := driverOffers s'\<rparr>"
    using run len_o [unfolded rows] r0 r1 len_f [unfolded rows] g0 g1 frame
    by (intro exI conjI)
  have e: "snd (acceptOffer market_db 2 2) =
       market_db\<lparr>orders := [order_row 1 1 500, accepted_order 2 1 300 2 550],
                 driverOffers := [offer_row 1 1 1 600, accepted_offer 2 1 2 550]\<rparr>"
    by (simp add: acceptOffer_def asInteger_values market_db_def verified_db_def
        update_where_def accepted_order_def accepted_offer_def order_row_def offer_row_def
        Let_def)
  from k one foreign d e show ?thesis by (intro conjI)
qed

text \<open>
  The claim fails at an order id the store cannot read. D2's offer exists and was made on
  order 1; called with the order id 2147483648, which differs from 1, the tool does not
  succeed: the update of the order raises, the failure is the general one, and no order is
  stamped and no offer accepted.
\<close>

theorem acceptOffer_foreign_order_counterexample:
  "map off_id (driverOffers market_db) = [1, 2]
   \<and> map off_orderId (driverOffers market_db) = [1, 1]
   \<and> acceptOffer market_db 2 2147483648 = (Inl CaughtError, market_db)
   \<and> isl (fst (acceptOffer market_db 2 2147483648))
   \<and> map o_status (orders (snd (acceptOffer market_db 2 2147483648)))
       = [Some ''pending'', Some ''pending'']
   \<and> map off_status (driverOffers (snd (acceptOffer market_db 2 2147483648)))
       = [Some ''pending'', Some ''pending'']"
  by (simp add: acceptOffer_def asInteger_values market_db_def offer_row_def order_row_def)

text \<open>
  C1, as the code has it. \<^verbatim>\<open>acceptOfferTool\<close> updates the order where its id is the one given,
  with no condition on the status the order has. So a call on an existing offer, for an order
  id the id column can hold, succeeds whatever the order's status, and of two calls on two
  offers, one after the other, for the same order, the second succeeds as the first did. The
  order rows stay in place; after the first call a row with the id given carries the driver
  and the price of the first offer, after the second those of the second offer in their
  place. Both offers end accepted; every other order and offer row is the row it was, and no
  other table changes.
\<close>

theorem acceptOffer_last_wins:
  assumes keyA: "asInteger offerA = Some offerKeyA"
    and first: "filter (\<lambda>f. off_id f = offerKeyA) (driverOffers s) = a # as"
    and keyB: "asInteger offerB = Some offerKeyB"
    and second: "filter (\<lambda>f. off_id f = offerKeyB) (driverOffers s) = b # bs"
    and order: "asInteger orderId = Some orderKey"
  shows "\<exists>infoA s1 infoB s2.
           acceptOffer s offerA orderId = (Inr infoA, s1)
           \<and> length (orders s1) = length (orders s)
           \<and> (\<forall>i < length (orders s).
                orders s1 ! i =
                  (if o_id (orders s ! i) = orderKey
                   then (orders s ! i)\<lparr>o_status := Some ''accepted'',
                          o_acceptedDriverId := Some (off_driverId a),
                          o_finalPrice := Some (off_offeredPrice a)\<rparr>
                   else orders s ! i))
           \<and> acceptOffer s1 offerB orderId = (Inr infoB, s2)
           \<and> length (orders s2) = length (orders s)
           \<and> (\<forall>i < length (orders s).
                orders s2 ! i =
                  (if o_id (orders s ! i) = orderKey
                   then (orders s ! i)\<lparr>o_status := Some ''accepted'',
                          o_acceptedDriverId := Some (off_driverId b),
                          o_finalPrice := Some (off_offeredPrice b)\<rparr>
                   else orders s ! i))
           \<and> length (driverOffers s2) = length (driverOffers s)
           \<and> (\<forall>i < length (driverOffers s).
                driverOffers s2 ! i =
                  (if off_id (driverOffers s ! i) = offerKeyA \<or> off_id (driverOffers s ! i) = offerKeyB
                   then (driverOffers s ! i)\<lparr>off_status := Some ''accepted''\<rparr>
                   else driverOffers s ! i))
           \<and> s2 = s\<lparr>orders := orders s2, driverOffers := driverOffers s2\<rparr>"
proof -
  from acceptOffer_success [OF keyA first order] obtain infoA s1 where
    runA: "acceptOffer s offerA orderId = (Inr infoA, s1)"
    and lenA: "length (orders s1) = length (orders s)"
    and nthA: "\<forall>i < length (orders s).
        orders s1 ! i =
          (if o_id (orders s ! i) = orderKey
           then (orders s ! i)\<lparr>o_status := Some ''accepted'',
                                o_acceptedDriverId := Some (off_driverId a),
                                o_finalPrice := Some (off_offeredPrice a)\<rparr>
           else orders s ! i)"
    and lenA': "length (driverOffers s1) = length (driverOffers s)"
    and nthA': "\<forall>i < length (driverOffers s).
        driverOffers s1 ! i =
          (if off_id (driverOffers s ! i) = offerKeyA
           then (driverOffers s ! i)\<lparr>off_status := Some ''accepted''\<rparr>
           else driverOffers s ! i)"
    and frameA: "s1 = s\<lparr>orders := orders s1, driverOffers := driverOffers s1\<rparr>"
    and lookup: "\<forall>k. filter (\<lambda>f. off_id f = k) (driverOffers s1) =
       update_where (\<lambda>f. off_id f = offerKeyA) (\<lambda>f. f\<lparr>off_status := Some ''accepted''\<rparr>)
         (filter (\<lambda>f. off_id f = k) (driverOffers s))"
    by this
  define b' where "b' = (if off_id b = offerKeyA then b\<lparr>off_status := Some ''accepted''\<rparr> else b)"
  define bs' where
    "bs' = update_where (\<lambda>f. off_id f = offerKeyA) (\<lambda>f. f\<lparr>off_status := Some ''accepted''\<rparr>) bs"
  have second': "filter (\<lambda>f. off_id f = offerKeyB) (driverOffers s1) = b' # bs'"
    unfolding lookup [rule_format] second b'_def bs'_def by (simp add: update_where_Cons)
  have same: "off_driverId b' = off_driverId b" "off_offeredPrice b' = off_offeredPrice b"
    by (simp_all add: b'_def)
  from acceptOffer_success [OF keyB second' order] obtain infoB s2 where
    runB: "acceptOffer s1 offerB orderId = (Inr infoB, s2)"
    and lenB: "length (orders s2) = length (orders s1)"
    and nthB: "\<forall>i < length (orders s1).
        orders s2 ! i =
          (if o_id (orders s1 ! i) = orderKey
           then (orders s1 ! i)\<lparr>o_status := Some ''accepted'',
                                 o_acceptedDriverId := Some (off_driverId b'),
                                 o_finalPrice := Some (off_offeredPrice b')\<rparr>
           else orders s1 ! i)"
    and lenB': "length (driverOffers s2) = length (driverOffers s1)"
    and nthB': "\<forall>i < length (driverOffers s1).
        driverOffers s2 ! i =
          (if off_id (driverOffers s1 ! i) = offerKeyB
           then (driverOffers s1 ! i)\<lparr>off_status := Some ''accepted''\<rparr>
           else driverOffers s1 ! i)"
    and frameB: "s2 = s1\<lparr>orders := orders s2, driverOffers := driverOffers s2\<rparr>"
    by this
  have len2: "length (orders s2) = length (orders s)"
    using lenA lenB by simp
  have nth2: "\<forall>i < length (orders s).
        orders s2 ! i =
          (if o_id (orders s ! i) = orderKey
           then (orders s ! i)\<lparr>o_status := Some ''accepted'',
                                o_acceptedDriverId := Some (off_driverId b),
                                o_finalPrice := Some (off_offeredPrice b)\<rparr>
           else orders s ! i)"
  proof (intro allI impI)
    fix i assume i: "i < length (orders s)"
    with lenA have i1: "i < length (orders s1)" by simp
    show "orders s2 ! i =
          (if o_id (orders s ! i) = orderKey
           then (orders s ! i)\<lparr>o_status := Some ''accepted'',
                                o_acceptedDriverId := Some (off_driverId b),
                                o_finalPrice := Some (off_offeredPrice b)\<rparr>
           else orders s ! i)"
      unfolding nthB [rule_format, OF i1] nthA [rule_format, OF i] same by simp
  qed
  have len2': "length (driverOffers s2) = length (driverOffers s)"
    using lenA' lenB' by simp
  have nth2': "\<forall>i < length (driverOffers s).
        driverOffers s2 ! i =
          (if off_id (driverOffers s ! i) = offerKeyA \<or> off_id (driverOffers s ! i) = offerKeyB
           then (driverOffers s ! i)\<lparr>off_status := Some ''accepted''\<rparr>
           else driverOffers s ! i)"
  proof (intro allI impI)
    fix i assume i: "i < length (driverOffers s)"
    with lenA' have i1: "i < length (driverOffers s1)" by simp
    show "driverOffers s2 ! i =
          (if off_id (driverOffers s ! i) = offerKeyA \<or> off_id (driverOffers s ! i) = offerKeyB
           then (driverOffers s ! i)\<lparr>off_status := Some ''accepted''\<rparr>
           else driverOffers s ! i)"
      unfolding nthB' [rule_format, OF i1] nthA' [rule_format, OF i] by simp
  qed
  have frame: "s2 = s\<lparr>orders := orders s2, driverOffers := driverOffers s2\<rparr>"
    by (subst frameB, subst frameA) simp
  show ?thesis
    by (intro exI conjI) (rule runA lenA nthA runB len2 nth2 len2' nth2' frame)+
qed

text \<open>
  In the scenario both offers on order 1 are accepted in turn; both calls succeed, the
  order's driver is 1 after the first and 2 after the second, at 550, and both offers are
  accepted.
\<close>

theorem acceptOffer_last_wins_witness:
  "asInteger 1 = Some 1
   \<and> filter (\<lambda>f. off_id f = 1) (driverOffers market_db) = [offer_row 1 1 1 600]
   \<and> asInteger 2 = Some 2
   \<and> filter (\<lambda>f. off_id f = 2) (driverOffers market_db) = [offer_row 2 1 2 550]
   \<and> (\<exists>infoA s1 infoB s2.
           acceptOffer market_db 1 1 = (Inr infoA, s1)
           \<and> orders s1 ! 0 = accepted_order 1 1 500 1 600
           \<and> acceptOffer s1 2 1 = (Inr infoB, s2)
           \<and> length (orders s2) = 2
           \<and> orders s2 ! 0 = accepted_order 1 1 500 2 550
           \<and> orders s2 ! 1 = order_row 2 1 300
           \<and> length (driverOffers s2) = 2
           \<and> driverOffers s2 ! 0 = accepted_offer 1 1 1 600
           \<and> driverOffers s2 ! 1 = accepted_offer 2 1 2 550
           \<and> s2 = market_db\<lparr>orders := orders s2, driverOffers := driverOffers s2\<rparr>)"
proof -
  note k = asInteger_values(1) asInteger_values(2)
  have one: "filter (\<lambda>f. off_id f = 1) (driverOffers market_db) = [offer_row 1 1 1 600]"
    and two: "filter (\<lambda>f. off_id f = 2) (driverOffers market_db) = [offer_row 2 1 2 550]"
    by (simp_all add: market_db_def offer_row_def)
  have rows: "length (orders market_db) = 2" "length (driverOffers market_db) = 2"
    "(0::nat) < 2" "(1::nat) < 2"
    by (simp_all add: market_db_def)
  have a0: "(if o_id (orders market_db ! 0) = 1
             then (orders market_db ! 0)\<lparr>o_status := Some ''accepted'',
                    o_acceptedDriverId := Some (off_driverId (offer_row 1 1 1 600)),
                    o_finalPrice := Some (off_offeredPrice (offer_row 1 1 1 600))\<rparr>
             else orders market_db ! 0) = accepted_order 1 1 500 1 600"
    and o0: "(if o_id (orders market_db ! 0) = 1
             then (orders market_db ! 0)\<lparr>o_status := Some ''accepted'',
                    o_acceptedDriverId := Some (off_driverId (offer_row 2 1 2 550)),
                    o_finalPrice := Some (off_offeredPrice (offer_row 2 1 2 550))\<rparr>
             else orders market_db ! 0) = accepted_order 1 1 500 2 550"
    and o1: "(if o_id (orders market_db ! 1) = 1
             then (orders market_db ! 1)\<lparr>o_status := Some ''accepted'',
                    o_acceptedDriverId := Some (off_driverId (offer_row 2 1 2 550)),
                    o_finalPrice := Some (off_offeredPrice (offer_row 2 1 2 550))\<rparr>
             else orders market_db ! 1) = order_row 2 1 300"
    and f0: "(if off_id (driverOffers market_db ! 0) = 1 \<or> off_id (driverOffers market_db ! 0) = 2
             then (driverOffers market_db ! 0)\<lparr>off_status := Some ''accepted''\<rparr>
             else driverOffers market_db ! 0) = accepted_offer 1 1 1 600"
    and f1: "(if off_id (driverOffers market_db ! 1) = 1 \<or> off_id (driverOffers market_db ! 1) = 2
             then (driverOffers market_db ! 1)\<lparr>off_status := Some ''accepted''\<rparr>
             else driverOffers market_db ! 1) = accepted_offer 2 1 2 550"
    by (simp_all add: market_db_def accepted_order_def accepted_offer_def order_row_def
        offer_row_def)
  from acceptOffer_last_wins [OF k(1) one k(2) two k(1)]
  obtain infoA s1 infoB s2 where runA: "acceptOffer market_db 1 1 = (Inr infoA, s1)"
    and nthA: "\<forall>i < length (orders market_db).
        orders s1 ! i =
          (if o_id (orders market_db ! i) = 1
           then (orders market_db ! i)\<lparr>o_status := Some ''accepted'',
                  o_acceptedDriverId := Some (off_driverId (offer_row 1 1 1 600)),
                  o_finalPrice := Some (off_offeredPrice (offer_row 1 1 1 600))\<rparr>
           else orders market_db ! i)"
    and runB: "acceptOffer s1 2 1 = (Inr infoB, s2)"
    and len_o: "length (orders s2) = length (orders market_db)"
    and nth_o: "\<forall>i < length (orders market_db).
        orders s2 ! i =
          (if o_id (orders market_db ! i) = 1
           then (orders market_db ! i)\<lparr>o_status := Some ''accepted'',
                  o_acceptedDriverId := Some (off_driverId (offer_row 2 1 2 550)),
                  o_finalPrice := Some (off_offeredPrice (offer_row 2 1 2 550))\<rparr>
           else orders market_db ! i)"
    and len_f: "length (driverOffers s2) = length (driverOffers market_db)"
    and nth_f: "\<forall>i < length (driverOffers market_db).
        driverOffers s2 ! i =
          (if off_id (driverOffers market_db ! i) = 1 \<or> off_id (driverOffers market_db ! i) = 2
           then (driverOffers market_db ! i)\<lparr>off_status := Some ''accepted''\<rparr>
           else driverOffers market_db ! i)"
    and frame: "s2 = market_db\<lparr>orders := orders s2, driverOffers := driverOffers s2\<rparr>"
    by (elim exE conjE)
  note q0 = nthA [unfolded rows, rule_format, OF rows(3), unfolded a0]
    and r0 = nth_o [unfolded rows, rule_format, OF rows(3), unfolded o0]
    and r1 = nth_o [unfolded rows, rule_format, OF rows(4), unfolded o1]
    and g0 = nth_f [unfolded rows, rule_format, OF rows(3), unfolded f0]
    and g1 = nth_f [unfolded rows, rule_format, OF rows(4), unfolded f1]
  have d: "\<exists>infoA s1 infoB s2.
           acceptOffer market_db 1 1 = (Inr infoA, s1)
           \<and> orders s1 ! 0 = accepted_order 1 1 500 1 600
           \<and> acceptOffer s1 2 1 = (Inr infoB, s2)
           \<and> length (orders s2) = 2
           \<and> orders s2 ! 0 = accepted_order 1 1 500 2 550
           \<and> orders s2 ! 1 = order_row 2 1 300
           \<and> length (driverOffers s2) = 2
           \<and> driverOffers s2 ! 0 = accepted_offer 1 1 1 600
           \<and> driverOffers s2 ! 1 = accepted_offer 2 1 2 550
           \<and> s2 = market_db\<lparr>orders := orders s2, driverOffers := driverOffers s2\<rparr>"
    using runA q0 runB len_o [unfolded rows] r0 r1 len_f [unfolded rows] g0 g1 frame
    by (intro exI conjI)
  from k(1) one k(2) two d show ?thesis by (intro conjI)
qed

text \<open>
  The claim fails here: order 1 is pending with two pending offers; the first acceptance
  succeeds and makes driver 1 the order's driver; the second acceptance, on the other offer of
  the same order, does not fail: it succeeds and makes driver 2 the order's driver, and both
  offers end accepted.
\<close>

theorem acceptOffer_guard_counterexample:
  "map o_id (orders market_db) = [1, 2]
   \<and> map o_status (orders market_db) = [Some ''pending'', Some ''pending'']
   \<and> map off_id (driverOffers market_db) = [1, 2]
   \<and> map off_orderId (driverOffers market_db) = [1, 1]
   \<and> map off_driverId (driverOffers market_db) = [1, 2]
   \<and> \<not> isl (fst (acceptOffer market_db 1 1))
   \<and> map o_status (orders (snd (acceptOffer market_db 1 1))) = [Some ''accepted'', Some ''pending'']
   \<and> map o_acceptedDriverId (orders (snd (acceptOffer market_db 1 1))) = [Some 1, None]
   \<and> \<not> isl (fst (acceptOffer (snd (acceptOffer market_db 1 1)) 2 1))
   \<and> map o_acceptedDriverId (orders (snd (acceptOffer (snd (acceptOffer market_db 1 1)) 2 1)))
       = [Some 2, None]
   \<and> map o_finalPrice (orders (snd (acceptOffer (snd (acceptOffer market_db 1 1)) 2 1)))
       = [Some 550, None]
   \<and> map off_status (driverOffers (snd (acceptOffer (snd (acceptOffer market_db 1 1)) 2 1)))
       = [Some ''accepted'', Some ''accepted'']"
  by (simp add: acceptOffer_def asInteger_values market_db_def verified_db_def offer_row_def
      order_row_def driver_row_def update_where_def Let_def)

section \<open>Making an offer\<close>













section \<open>Submitting a document\<close>



section \<open>Responding to a counter-offer\<close>

lemma truthy_num_iff: "truthy_num p = (\<exists>n. p = Some n \<and> n \<noteq> 0)"
  by (cases p) auto

text \<open>
  The driver lookup comes first in \<^verbatim>\<open>respondToCounterOfferTool\<close>: without a driver of the
  handle every branch fails with the not-found message and the database is the one given.
\<close>

theorem respondToCounterOffer_no_driver:
  assumes "filter (\<lambda>d. d_telegramId d = telegramId) (drivers s) = []"
  shows "respondToCounterOffer s telegramId negotiationId accept counterPrice = (Inl DriverNotFound, s)
         \<and> kind DriverNotFound = NotFound"
  using assms by (simp add: respondToCounterOffer_def)

theorem respondToCounterOffer_no_driver_witness:
  "filter (\<lambda>d. d_telegramId d = ''zz'') (drivers negotiating_db) = []
   \<and> respondToCounterOffer negotiating_db ''zz'' 1 True None = (Inl DriverNotFound, negotiating_db)
   \<and> respondToCounterOffer negotiating_db ''zz'' 1 False (Some 470) = (Inl DriverNotFound, negotiating_db)
   \<and> respondToCounterOffer negotiating_db ''zz'' 1 False None = (Inl DriverNotFound, negotiating_db)"
proof -
  have zz: "filter (\<lambda>d. d_telegramId d = ''zz'') (drivers negotiating_db) = []"
    by (simp add: negotiating_db_def market_db_def verified_db_def driver_row_def)
  from zz respondToCounterOffer_no_driver [OF zz, of 1 True None, THEN conjunct1]
    respondToCounterOffer_no_driver [OF zz, of 1 False "Some 470", THEN conjunct1]
    respondToCounterOffer_no_driver [OF zz, of 1 False None, THEN conjunct1]
  show ?thesis by (intro conjI)
qed

text \<open>
  The counter-price branch, for a registered driver, an existing negotiation and a price that
  is not zero: one row is appended to the negotiations, on the negotiation's order, from the
  driver to the sender of the negotiation, pending, at the new price. The rows that were there
  are the rows they were, the answered one among them.
\<close>

theorem respondToCounterOffer_counter:
  assumes reg: "filter (\<lambda>d. d_telegramId d = telegramId) (drivers s) = driver # rest"
    and neg: "filter (\<lambda>n. n_id n = negotiationId) (priceNegotiations s) = negotiation # others"
    and price: "counterPrice \<noteq> 0"
  shows "\<exists>row. respondToCounterOffer s telegramId negotiationId False (Some counterPrice) =
           (Inr (CounterSent counterPrice),
            s\<lparr>priceNegotiations := priceNegotiations s @ [row],
              seq_priceNegotiations := seq_priceNegotiations s + 1\<rparr>)
         \<and> row = \<lparr>n_id = seq_priceNegotiations s + 1, n_orderId = n_orderId negotiation,
                   n_fromUserId = d_id driver, n_fromUserType = ''driver'',
                   n_toUserId = n_fromUserId negotiation, n_toUserType = ''passenger'',
                   n_proposedPrice = counterPrice, n_status = Some ''pending''\<rparr>"
  using reg neg price by (simp add: respondToCounterOffer_def Let_def)

text \<open>
  The negotiation chain of the specification: the passenger proposed 450, D1 answers 470. The
  passenger's row is first in the table as before, pending; the second row is D1's.
\<close>

theorem respondToCounterOffer_counter_witness:
  "filter (\<lambda>d. d_telegramId d = ''d1'') (drivers negotiating_db) = [driver_row 1 ''d1'' True]
   \<and> filter (\<lambda>n. n_id n = 1) (priceNegotiations negotiating_db) = [negotiation_row 1 1 1 1 450]
   \<and> (470::int) \<noteq> 0
   \<and> respondToCounterOffer negotiating_db ''d1'' 1 False (Some 470) =
       (Inr (CounterSent 470),
        negotiating_db\<lparr>priceNegotiations :=
            [negotiation_row 1 1 1 1 450,
             \<lparr>n_id = 2, n_orderId = 1, n_fromUserId = 1, n_fromUserType = ''driver'',
              n_toUserId = 1, n_toUserType = ''passenger'', n_proposedPrice = 470,
              n_status = Some ''pending''\<rparr>],
          seq_priceNegotiations := 2\<rparr>)"
proof -
  have d1: "filter (\<lambda>d. d_telegramId d = ''d1'') (drivers negotiating_db) = [driver_row 1 ''d1'' True]"
    by (simp add: negotiating_db_def market_db_def verified_db_def driver_row_def)
  have n1: "filter (\<lambda>n. n_id n = 1) (priceNegotiations negotiating_db) = [negotiation_row 1 1 1 1 450]"
    by (simp add: negotiating_db_def negotiation_row_def)
  have p: "(470::int) \<noteq> 0" by simp
  from respondToCounterOffer_counter [OF d1 n1 p]
  have run: "respondToCounterOffer negotiating_db ''d1'' 1 False (Some 470) =
       (Inr (CounterSent 470),
        negotiating_db\<lparr>priceNegotiations :=
            [negotiation_row 1 1 1 1 450,
             \<lparr>n_id = 2, n_orderId = 1, n_fromUserId = 1, n_fromUserType = ''driver'',
              n_toUserId = 1, n_toUserType = ''passenger'', n_proposedPrice = 470,
              n_status = Some ''pending''\<rparr>],
          seq_priceNegotiations := 2\<rparr>)"
    by (simp add: negotiating_db_def negotiation_row_def driver_row_def)
  from d1 n1 p run show ?thesis by (intro conjI)
qed

text \<open>
  C7. The branch is entered by \<^verbatim>\<open>else if (counterPrice)\<close>, and the number zero is falsy: a
  counter price of 0, which the input schema admits, is answered as if no price were given. No
  row is appended, and the negotiation answered is marked rejected.
\<close>

theorem respondToCounterOffer_zero_price:
  "priceNegotiations negotiating_db = [negotiation_row 1 1 1 1 450]
   \<and> n_status (negotiation_row 1 1 1 1 450) = Some ''pending''
   \<and> respondToCounterOffer negotiating_db ''d1'' 1 False (Some 0) =
       (Inr NegotiationRejected,
        negotiating_db\<lparr>priceNegotiations :=
            [(negotiation_row 1 1 1 1 450)\<lparr>n_status := Some ''rejected''\<rparr>]\<rparr>)"
  by (simp add: respondToCounterOffer_def negotiating_db_def market_db_def verified_db_def
      driver_row_def negotiation_row_def update_where_def)

text \<open>
  C9. Only the counter-price branch reads the negotiation. With a registered driver and an id
  no negotiation has, that branch fails with the not-found message, while the accept branch
  and the reject branch report success; the three leave the database as it was.
\<close>

theorem respondToCounterOffer_missing_negotiation:
  "map n_id (priceNegotiations negotiating_db) = [1]
   \<and> respondToCounterOffer negotiating_db ''d1'' 7 False (Some 470) =
       (Inl NegotiationNotFound, negotiating_db)
   \<and> respondToCounterOffer negotiating_db ''d1'' 7 True None =
       (Inr NegotiationAccepted, negotiating_db)
   \<and> respondToCounterOffer negotiating_db ''d1'' 7 False None =
       (Inr NegotiationRejected, negotiating_db)"
  by (simp add: respondToCounterOffer_def negotiating_db_def market_db_def verified_db_def
      driver_row_def negotiation_row_def update_where_def)

section \<open>Adjudicating a document\<close>



lemma processDocumentVerification_missing:
  assumes "filter (\<lambda>c. doc_id c = documentId) (driverDocuments s) = []"
  shows "processDocumentVerification s documentId approve rejectionReason = (Inr (), s)"
  using assms
  by (simp add: processDocumentVerification_def Let_def update_where_none)





section \<open>Rating a ride\<close>

lemma ratings_updateUserRating [simp]: "ratings (updateUserRating s userId userType) = ratings s"
  by (simp add: updateUserRating_def Let_def)


text \<open>What \<^verbatim>\<open>ratingParties\<close> answers, in the words above.\<close>

lemma ratingParties_Inr_iff:
  "(ratingParties s telegramId userType orderData = Inr (userId, target)) =
     (callerId s telegramId userType = Some userId \<and> recordedParty orderData userType userId
      \<and> target = (case userType of Passenger \<Rightarrow> o_acceptedDriverId orderData
                                  | Driver \<Rightarrow> Some (o_passengerId orderData)))"
  by (auto simp: ratingParties_def callerId_def recordedParty_def
      split: userType.splits list.splits if_splits)


text \<open>
  The select of \<^verbatim>\<open>rateRideTool\<close> for an earlier rating compares the order and the number of
  the user, not the role: it finds the caller's rating and the namesake's alike.
\<close>

lemma stored_rating_filter:
  "(filter (\<lambda>r. r_orderId r = orderKey \<and> r_fromUserId r = userId) (ratings s) \<noteq> []) =
     (alreadyRated s orderKey userId userType \<or> namesakeRated s orderKey userId userType)"
  by (auto simp: alreadyRated_def namesakeRated_def list_ex_iff filter_empty_conv)

lemma orderOf_Some:
  "orderOf s orderKey = Some orderData \<Longrightarrow>
   \<exists>rest. filter (\<lambda>r. o_id r = orderKey) (orders s) = orderData # rest"
  by (simp add: orderOf_def split: list.splits)







lemma rateRide_inserted:
  "asInteger orderId = Some orderKey \<Longrightarrow> orderOf s orderKey = Some orderData \<Longrightarrow>
   ratingParties s telegramId userType orderData = Inr (userId, Some target) \<Longrightarrow>
   \<not> alreadyRated s orderKey userId userType \<Longrightarrow>
   \<not> namesakeRated s orderKey userId userType \<Longrightarrow>
   asInteger rating = Some stars \<Longrightarrow>
   rateRide s telegramId orderId userType rating comment =
     (Inr (),
      updateUserRating
        (s\<lparr>ratings := ratings s @
              [\<lparr>r_id = seq_ratings s + 1, r_orderId = orderKey, r_fromUserId = userId,
                r_fromUserType = userType_text userType, r_toUserId = target,
                r_toUserType = userType_text (counterpart userType),
                r_rating = stars, r_comment = orNull comment\<rparr>],
            seq_ratings := seq_ratings s + 1\<rparr>)
        target (userType_text (counterpart userType)))"
  by (auto simp: rateRide_def stored_rating_filter [of _ _ _ userType] Let_def
      dest!: orderOf_Some)





section \<open>The arithmetic of the rating average\<close>

lemma bits_less: "n < 2 ^ k \<Longrightarrow> bits n \<le> k"
proof (induction k arbitrary: n)
  case 0
  then show ?case by (simp add: bits.simps)
next
  case (Suc k)
  show ?case
  proof (cases "n = 0")
    case True
    then show ?thesis by (simp add: bits.simps)
  next
    case False
    from Suc.prems have "n div 2 < 2 ^ k" by simp
    from Suc.IH [OF this] False show ?thesis by (simp add: bits.simps [of n])
  qed
qed

text \<open>Rounding a fraction to the nearest integer misses it by at most one half.\<close>

lemma roundEven_near:
  assumes "0 < b"
  shows "2 * \<bar>int (roundEven (a, b)) * int b - int a\<bar> \<le> int b"
proof -
  define q r where "q = a div b" and "r = a mod b"
  have a: "a = q * b + r" and r: "r < b"
    using assms by (simp_all add: q_def r_def)
  show ?thesis
  proof (cases "b < 2 * r \<or> (2 * r = b \<and> odd q)")
    case True
    then have "roundEven (a, b) = q + 1"
      by (simp add: roundEven_def q_def r_def Let_def)
    moreover have "int (q + 1) * int b - int a = int b - int r"
      unfolding a by (simp add: algebra_simps)
    ultimately show ?thesis using True r by auto
  next
    case False
    then have "roundEven (a, b) = q"
      by (simp add: roundEven_def q_def r_def Let_def)
    moreover have "int q * int b - int a = - int r"
      unfolding a by (simp add: algebra_simps)
    ultimately show ?thesis using False by auto
  qed
qed

text \<open>
  The heart of the matter, in integers. \<open>m / E\<close> is the double (\<open>E\<close> a power of two),
  within half a unit of the last place of \<open>S / n\<close>; \<open>h\<close> is \<open>100 * m / E\<close> rounded half up.
  When \<open>E\<close> exceeds \<open>100 * n\<close>, \<open>h\<close> is within one half of \<open>100 * S / n\<close>.
\<close>

lemma hundredths_near:
  fixes m S n E h :: int
  assumes n: "0 < n" and E: "100 * n < E"
    and m: "2 * \<bar>m * n - S * E\<bar> \<le> n"
    and h: "h = (200 * m + E) div (2 * E)"
  shows "2 * \<bar>h * n - 100 * S\<bar> \<le> n"
proof -
  have Epos: "0 < E" using n E by linarith
  define \<rho> where "\<rho> = m * n - S * E"
  have \<rho>: "2 * \<bar>\<rho>\<bar> \<le> n" using m by (simp add: \<rho>_def)
  have mn: "m * n = S * E + \<rho>" by (simp add: \<rho>_def)
  define d where "d = (200 * m + E) mod (2 * E)"
  have d: "0 \<le> d" "d < 2 * E"
    using Epos by (simp_all add: d_def)
  have split: "200 * m + E = 2 * E * h + d"
    unfolding h d_def by simp
  have "(200 * m + E) * n = (2 * E * h + d) * n"
    by (simp only: split)
  then have eq: "E * (2 * h * n - 200 * S - n) = 200 * \<rho> - d * n"
    using mn by (simp add: algebra_simps)
  have dn: "0 \<le> d * n" "d * n < 2 * E * n"
    using d n by simp_all
  have upper: "2 * h * n - 200 * S - n < 1"
  proof (rule ccontr)
    assume "\<not> 2 * h * n - 200 * S - n < 1"
    then have "1 \<le> 2 * h * n - 200 * S - n" by simp
    then have "E * 1 \<le> E * (2 * h * n - 200 * S - n)"
      using Epos by (intro mult_left_mono) simp_all
    with eq have "E \<le> 200 * \<rho> - d * n" by simp
    with dn \<rho> E show False by linarith
  qed
  have lower: "- 1 < 2 * h * n - 200 * S + n"
  proof (rule ccontr)
    assume "\<not> - 1 < 2 * h * n - 200 * S + n"
    then have "2 * h * n - 200 * S + n \<le> - 1" by simp
    then have "E * (2 * h * n - 200 * S + n) \<le> E * (- 1)"
      using Epos by (intro mult_left_mono) simp_all
    moreover have "E * (2 * h * n - 200 * S + n) = 200 * \<rho> - d * n + 2 * E * n"
      using eq by (simp add: algebra_simps)
    ultimately have "200 * \<rho> - d * n + 2 * E * n \<le> - E" by simp
    with dn \<rho> E show False by linarith
  qed
  define X where "X = h * n"
  have "2 * h * n = 2 * X" by (simp add: X_def)
  with upper lower have "2 * X - 200 * S - n < 1" "- 1 < 2 * X - 200 * S + n" by simp_all
  then have "2 * \<bar>X - 100 * S\<bar> \<le> n" by arith
  then show ?thesis by (simp add: X_def)
qed

lemma less_bits: "n < 2 ^ bits n"
proof (induction n rule: bits.induct)
  case (1 n)
  show ?case
  proof (cases "n = 0")
    case True
    then show ?thesis by simp
  next
    case False
    from 1 [OF False] have "n div 2 < 2 ^ bits (n div 2)" .
    then have "n < 2 * 2 ^ bits (n div 2)" by linarith
    with False show ?thesis by (simp add: bits.simps [of n])
  qed
qed

text \<open>Sums of ratings between 1 and 5 stay far below \<open>2 ^ 53\<close>: no addition rounds.\<close>

lemma foldl_round53_exact:
  assumes "\<forall>x \<in> set xs. 0 \<le> x \<and> x \<le> 5" and "0 \<le> acc"
    and "acc + 5 * int (length xs) < 2 ^ 53"
  shows "foldl (\<lambda>sum r. round53 (sum + r)) acc xs = acc + sum_list xs"
  using assms
proof (induction xs arbitrary: acc)
  case Nil
  then show ?case by simp
next
  case (Cons x xs)
  from Cons.prems have x: "0 \<le> x" "x \<le> 5" by simp_all
  with Cons.prems have small: "\<bar>acc + x\<bar> < 2 ^ 53" by simp
  then have step: "round53 (acc + x) = acc + x" by (simp add: round53_def)
  have "foldl (\<lambda>sum r. round53 (sum + r)) (acc + x) xs = (acc + x) + sum_list xs"
    using Cons.prems x by (intro Cons.IH) simp_all
  then show ?case by (simp add: step)
qed

lemma sum_list_bounds:
  assumes "\<forall>x \<in> set xs. (1::int) \<le> x \<and> x \<le> 5"
  shows "int (length xs) \<le> sum_list xs \<and> sum_list xs \<le> 5 * int (length xs)"
  using assms by (induction xs) auto

lemma js_sum_exact:
  assumes "\<forall>x \<in> set xs. 1 \<le> x \<and> x \<le> 5" and "length xs < 2 ^ 32"
  shows "js_sum xs = sum_list xs"
proof -
  have "5 * int (length xs) < 5 * 2 ^ 32" using assms(2) by simp
  then have "0 + 5 * int (length xs) < 2 ^ 53" by simp
  moreover have "\<forall>x \<in> set xs. 0 \<le> x \<and> x \<le> 5" using assms(1) by auto
  ultimately have "foldl (\<lambda>sum r. round53 (sum + r)) 0 xs = 0 + sum_list xs"
    by (intro foldl_round53_exact) simp_all
  then show ?thesis by (simp add: js_sum_def)
qed

text \<open>
  The quotient of a sum \<open>S\<close> by a count \<open>n\<close>, with \<open>S\<close> at most \<open>5 * n\<close>: the exponent is
  at most \<open>- 49\<close>, and the mantissa is the scaled fraction to within one half.
\<close>

lemma toDouble_near:
  assumes S: "0 < S" and n: "0 < n" and le: "S \<le> 5 * n"
  shows "\<exists>k. snd (toDouble S n) = - int k \<and> 49 \<le> k
             \<and> 2 * \<bar>int (fst (toDouble S n)) * int n - int S * 2 ^ k\<bar> \<le> int n"
proof -
  define e0 where "e0 = int (bits S) - int (bits n) - 53"
  define e where "e = (if 2 ^ 53 \<le> fst (scale S n e0) div snd (scale S n e0) then e0 + 1 else e0)"
  have "S < 8 * 2 ^ bits n" using le less_bits [of n] by linarith
  then have "S < 2 ^ (bits n + 3)" by (simp add: power_add)
  then have "bits S \<le> bits n + 3" by (rule bits_less)
  then have "e0 \<le> - 50" by (simp add: e0_def)
  then have e: "e \<le> - 49" by (simp add: e_def)
  define k where "k = nat (- e)"
  have k: "e = - int k" "49 \<le> k" using e by (simp_all add: k_def)
  have td: "toDouble S n = (roundEven (scale S n e), e)"
    using S by (simp add: toDouble_def Let_def e_def e0_def)
  have sc: "scale S n e = (S * 2 ^ k, n)"
    using e by (simp add: scale_def k_def)
  have "2 * \<bar>int (roundEven (S * 2 ^ k, n)) * int n - int (S * 2 ^ k)\<bar> \<le> int n"
    using n by (rule roundEven_near)
  then have near: "2 * \<bar>int (fst (toDouble S n)) * int n - int S * 2 ^ k\<bar> \<le> int n"
    by (simp add: td sc)
  have "snd (toDouble S n) = - int k" by (simp add: td k)
  with k(2) near show ?thesis by blast
qed

text \<open>
  What \<^verbatim>\<open>(sum / count).toFixed(2)\<close> prints for ratings between 1 and 5: the hundredths \<open>h\<close>
  printed are within one half of a hundred times the mean, so the text is the mean rounded
  to two places (at a tie, to either neighbour).
\<close>

lemma average_rounded:
  assumes ne: "scores \<noteq> []" and range: "\<forall>x \<in> set scores. 1 \<le> x \<and> x \<le> 5"
    and len: "length scores < 2 ^ 32"
  shows "\<exists>h. toFixed2 (js_div (js_sum scores) (length scores)) = fixed2 h
             \<and> 2 * \<bar>int h * int (length scores) - 100 * sum_list scores\<bar> \<le> int (length scores)"
proof -
  define n where "n = length scores"
  define S where "S = nat (sum_list scores)"
  have n: "0 < n" using ne by (simp add: n_def)
  from sum_list_bounds [OF range]
  have bounds: "int n \<le> sum_list scores" "sum_list scores \<le> 5 * int n"
    by (simp_all add: n_def)
  then have S: "int S = sum_list scores" "0 < S" "S \<le> 5 * n"
    using n by (simp_all add: S_def)
  have sum: "js_sum scores = int S"
    using js_sum_exact [OF range len] S(1) by simp
  from toDouble_near [OF S(2) n S(3)] obtain k where
    k: "snd (toDouble S n) = - int k" "49 \<le> k"
    and near: "2 * \<bar>int (fst (toDouble S n)) * int n - int S * 2 ^ k\<bar> \<le> int n"
    by blast
  define m where "m = fst (toDouble S n)"
  define h where "h = (200 * m + 2 ^ k) div (2 * 2 ^ k)"
  have hund: "hundredths m (- int k) = h"
    using k(2) by (simp add: hundredths_def h_def)
  have printed: "toFixed2 (js_div (js_sum scores) (length scores)) = fixed2 h"
    by (simp add: sum js_div_def toFixed2_def Let_def n_def [symmetric] k(1) m_def [symmetric] hund)
  have "(2::int) ^ 39 \<le> 2 ^ k" using k(2) by (intro power_increasing) simp_all
  moreover have "100 * int n < 100 * 2 ^ 32" using len by (simp add: n_def)
  ultimately have big: "100 * int n < 2 ^ k" by simp
  have hint: "int h = (200 * int m + 2 ^ k) div (2 * 2 ^ k)"
    by (simp add: h_def zdiv_int)
  have "2 * \<bar>int h * int n - 100 * int S\<bar> \<le> int n"
    using n big near hint unfolding m_def [symmetric]
    by (intro hundredths_near [where E = "2 ^ k" and m = "int m"]) simp_all
  with printed show ?thesis by (auto simp: n_def S(1))
qed

text \<open>The text \<^verbatim>\<open>toFixed(2)\<close> prints for \<open>h\<close> hundredths: the units, a point, two digits.\<close>

lemma digits_not_Nil: "digits n \<noteq> []"
  by (simp add: digits.simps [of n])

lemma fixed2_decimal:
  "fixed2 h = digits (h div 100) @ ''.'' @
              [''0123456789'' ! (h div 10 mod 10), ''0123456789'' ! (h mod 10)]"
proof -
  consider "h < 10" | "10 \<le> h" "h < 100" | "100 \<le> h" by linarith
  then show ?thesis
  proof cases
    case 1
    then have "digits h = [''0123456789'' ! h]" "digits (h div 100) = ''0''"
      by (simp_all add: digits.simps [of h] digits.simps [of 0])
    with 1 show ?thesis by (simp add: fixed2_def)
  next
    case 2
    then have "h div 10 < 10" by simp
    with 2 have "digits h = [''0123456789'' ! (h div 10), ''0123456789'' ! (h mod 10)]"
      "digits (h div 100) = ''0''"
      by (simp_all add: digits.simps [of h] digits.simps [of "h div 10"] digits.simps [of 0])
    with 2 show ?thesis by (simp add: fixed2_def)
  next
    case 3
    then have "\<not> h div 10 < 10" by simp
    moreover have "h div 10 div 10 = h div 100" by (simp add: div_mult2_eq [symmetric])
    ultimately have d: "digits h = digits (h div 100) @
        [''0123456789'' ! (h div 10 mod 10), ''0123456789'' ! (h mod 10)]"
      using 3 by (simp add: digits.simps [of h] digits.simps [of "h div 10"])
    have "0 < length (digits (h div 100))" using digits_not_Nil by simp
    then show ?thesis
      unfolding fixed2_def Let_def d by simp
  qed
qed

section \<open>The rating aggregate\<close>

lemma updateUserRating_none:
  "scoresOf s userId role = [] \<Longrightarrow> updateUserRating s userId (userType_text role) = s"
  by (simp add: updateUserRating_def scoresOf_def)

lemma updateUserRating_driver:
  assumes "scoresOf s userId Driver \<noteq> []"
  shows "updateUserRating s userId ''driver'' =
     s\<lparr>drivers :=
         update_where (\<lambda>d. d_id d = userId)
           (\<lambda>d. d\<lparr>d_rating := Some (toFixed2 (js_div (js_sum (scoresOf s userId Driver))
                                                       (length (scoresOf s userId Driver)))),
                  d_totalRides := Some (int (length (scoresOf s userId Driver)))\<rparr>)
           (drivers s)\<rparr>"
  using assms by (simp add: updateUserRating_def scoresOf_def Let_def)

lemma updateUserRating_passenger:
  assumes "scoresOf s userId Passenger \<noteq> []"
  shows "updateUserRating s userId ''passenger'' =
     s\<lparr>passengers :=
         update_where (\<lambda>p. p_id p = userId)
           (\<lambda>p. p\<lparr>p_rating := Some (toFixed2 (js_div (js_sum (scoresOf s userId Passenger))
                                                       (length (scoresOf s userId Passenger)))),
                  p_totalRides := Some (int (length (scoresOf s userId Passenger)))\<rparr>)
           (passengers s)\<rparr>"
  using assms by (simp add: updateUserRating_def scoresOf_def Let_def)

text \<open>
  What \<^verbatim>\<open>updateUserRating\<close> leaves, row by row: the profile table of the role keeps its rows in
  place, a row of the user is written with the aggregate and the count, every other row is the
  row it was, and nothing else in the database differs.
\<close>

lemma updateUserRating_driver_rows:
  assumes "scoresOf s userId Driver \<noteq> []"
  shows "length (drivers (updateUserRating s userId ''driver'')) = length (drivers s)"
    and "\<forall>i < length (drivers s).
           drivers (updateUserRating s userId ''driver'') ! i =
             (if d_id (drivers s ! i) = userId
              then (drivers s ! i)\<lparr>
                     d_rating := Some (toFixed2 (js_div (js_sum (scoresOf s userId Driver))
                                                        (length (scoresOf s userId Driver)))),
                     d_totalRides := Some (int (length (scoresOf s userId Driver)))\<rparr>
              else drivers s ! i)"
    and "updateUserRating s userId ''driver'' =
           s\<lparr>drivers := drivers (updateUserRating s userId ''driver'')\<rparr>"
  unfolding updateUserRating_driver [OF assms] by (simp_all add: nth_update_where)

lemma updateUserRating_passenger_rows:
  assumes "scoresOf s userId Passenger \<noteq> []"
  shows "length (passengers (updateUserRating s userId ''passenger'')) = length (passengers s)"
    and "\<forall>i < length (passengers s).
           passengers (updateUserRating s userId ''passenger'') ! i =
             (if p_id (passengers s ! i) = userId
              then (passengers s ! i)\<lparr>
                     p_rating := Some (toFixed2 (js_div (js_sum (scoresOf s userId Passenger))
                                                        (length (scoresOf s userId Passenger)))),
                     p_totalRides := Some (int (length (scoresOf s userId Passenger)))\<rparr>
              else passengers s ! i)"
    and "updateUserRating s userId ''passenger'' =
           s\<lparr>passengers := passengers (updateUserRating s userId ''passenger'')\<rparr>"
  unfolding updateUserRating_passenger [OF assms] by (simp_all add: nth_update_where)

lemma getUserRating_refused:
  "asInteger userId = None \<Longrightarrow> getUserRating s userId role = (Inl CaughtError, s)"
  by (simp add: getUserRating_def)

lemma getUserRating_none:
  "asInteger userId = Some userKey \<Longrightarrow> scoresOf s userKey role = [] \<Longrightarrow>
   getUserRating s userId role =
     (Inr \<lparr>ur_rating = ''5.00'', ur_totalRatings = 0, ur_recentComments = []\<rparr>, s)"
  by (simp add: getUserRating_def scoresOf_def)

lemma getUserRating_some:
  "asInteger userId = Some userKey \<Longrightarrow> scoresOf s userKey role \<noteq> [] \<Longrightarrow>
   \<exists>r. getUserRating s userId role = (Inr r, s)
       \<and> ur_rating r = toFixed2 (js_div (js_sum (scoresOf s userKey role)) (length (scoresOf s userKey role)))
       \<and> ur_totalRatings r = length (scoresOf s userKey role)"
  by (simp add: getUserRating_def scoresOf_def Let_def)

text \<open>
  C6, as the code has it. \<^verbatim>\<open>updateUserRating\<close> for a user without a rating in the role writes
  nothing. For a user with a rating history, in either role: the profile table of the role
  keeps its rows in place; each row of the user gets \<^verbatim>\<open>(sum / count).toFixed(2)\<close> over the whole
  history as its rating and the count as its number of rides; every other row is the row it
  was; and nothing else in the database changes. For ratings between 1 and 5, as the input
  schema admits, the text written is the mean rounded to two places: the hundredths it shows
  are within one half of a hundred times the mean. The ratings 5, 4, 3 give \<^verbatim>\<open>4.00\<close>.
  \<^verbatim>\<open>getUserRatingTool\<close> fails with its general message for a \<^verbatim>\<open>userId\<close> the id column cannot
  hold. For any other, it succeeds with \<^verbatim>\<open>5.00\<close>, the count 0 and no comment when the user has
  no rating, and reports the same text and count as are written to the profile when the user
  has ratings.
\<close>

theorem rating_aggregate:
  "(scoresOf s userId role = [] \<longrightarrow> updateUserRating s userId (userType_text role) = s)
   \<and> (scoresOf s userId Driver \<noteq> [] \<longrightarrow>
        length (drivers (updateUserRating s userId (userType_text Driver))) = length (drivers s)
        \<and> (\<forall>i < length (drivers s).
              drivers (updateUserRating s userId (userType_text Driver)) ! i =
                (if d_id (drivers s ! i) = userId
                 then (drivers s ! i)\<lparr>
                        d_rating := Some (toFixed2 (js_div (js_sum (scoresOf s userId Driver))
                                                           (length (scoresOf s userId Driver)))),
                        d_totalRides := Some (int (length (scoresOf s userId Driver)))\<rparr>
                 else drivers s ! i))
        \<and> updateUserRating s userId (userType_text Driver) =
            s\<lparr>drivers := drivers (updateUserRating s userId (userType_text Driver))\<rparr>)
   \<and> (scoresOf s userId Passenger \<noteq> [] \<longrightarrow>
        length (passengers (updateUserRating s userId (userType_text Passenger))) = length (passengers s)
        \<and> (\<forall>i < length (passengers s).
              passengers (updateUserRating s userId (userType_text Passenger)) ! i =
                (if p_id (passengers s ! i) = userId
                 then (passengers s ! i)\<lparr>
                        p_rating := Some (toFixed2 (js_div (js_sum (scoresOf s userId Passenger))
                                                           (length (scoresOf s userId Passenger)))),
                        p_totalRides := Some (int (length (scoresOf s userId Passenger)))\<rparr>
                 else passengers s ! i))
        \<and> updateUserRating s userId (userType_text Passenger) =
            s\<lparr>passengers := passengers (updateUserRating s userId (userType_text Passenger))\<rparr>)
   \<and> (\<forall>scores. scores \<noteq> [] \<and> (\<forall>x \<in> set scores. 1 \<le> x \<and> x \<le> 5) \<and> length scores < 2 ^ 32 \<longrightarrow>
        (\<exists>h. toFixed2 (js_div (js_sum scores) (length scores)) =
                digits (h div 100) @ ''.'' @
                [''0123456789'' ! (h div 10 mod 10), ''0123456789'' ! (h mod 10)]
            \<and> 2 * \<bar>int h * int (length scores) - 100 * sum_list scores\<bar> \<le> int (length scores)))
   \<and> toFixed2 (js_div (js_sum [5, 4, 3]) 3) = ''4.00''
   \<and> (asInteger asked = None \<longrightarrow> getUserRating s asked role = (Inl CaughtError, s))
   \<and> (\<forall>userKey. asInteger asked = Some userKey \<longrightarrow>
        (scoresOf s userKey role = [] \<longrightarrow>
           getUserRating s asked role =
             (Inr \<lparr>ur_rating = ''5.00'', ur_totalRatings = 0, ur_recentComments = []\<rparr>, s))
        \<and> (scoresOf s userKey role \<noteq> [] \<longrightarrow>
             (\<exists>r. getUserRating s asked role = (Inr r, s)
                 \<and> ur_rating r = toFixed2 (js_div (js_sum (scoresOf s userKey role))
                                                   (length (scoresOf s userKey role)))
                 \<and> ur_totalRatings r = length (scoresOf s userKey role))))"
proof (intro conjI impI allI)
  assume "scoresOf s userId role = []"
  then show "updateUserRating s userId (userType_text role) = s"
    by (rule updateUserRating_none)
next
  assume ne: "scoresOf s userId Driver \<noteq> []"
  show "length (drivers (updateUserRating s userId (userType_text Driver))) = length (drivers s)"
    unfolding userType_text.simps by (rule updateUserRating_driver_rows(1) [OF ne])
  show "drivers (updateUserRating s userId (userType_text Driver)) ! i =
          (if d_id (drivers s ! i) = userId
           then (drivers s ! i)\<lparr>
                  d_rating := Some (toFixed2 (js_div (js_sum (scoresOf s userId Driver))
                                                     (length (scoresOf s userId Driver)))),
                  d_totalRides := Some (int (length (scoresOf s userId Driver)))\<rparr>
           else drivers s ! i)" if "i < length (drivers s)" for i
    unfolding userType_text.simps
    by (rule updateUserRating_driver_rows(2) [OF ne, rule_format, OF that])
  show "updateUserRating s userId (userType_text Driver) =
            s\<lparr>drivers := drivers (updateUserRating s userId (userType_text Driver))\<rparr>"
    unfolding userType_text.simps by (rule updateUserRating_driver_rows(3) [OF ne])
next
  assume ne: "scoresOf s userId Passenger \<noteq> []"
  show "length (passengers (updateUserRating s userId (userType_text Passenger))) = length (passengers s)"
    unfolding userType_text.simps by (rule updateUserRating_passenger_rows(1) [OF ne])
  show "passengers (updateUserRating s userId (userType_text Passenger)) ! i =
          (if p_id (passengers s ! i) = userId
           then (passengers s ! i)\<lparr>
                  p_rating := Some (toFixed2 (js_div (js_sum (scoresOf s userId Passenger))
                                                     (length (scoresOf s userId Passenger)))),
                  p_totalRides := Some (int (length (scoresOf s userId Passenger)))\<rparr>
           else passengers s ! i)" if "i < length (passengers s)" for i
    unfolding userType_text.simps
    by (rule updateUserRating_passenger_rows(2) [OF ne, rule_format, OF that])
  show "updateUserRating s userId (userType_text Passenger) =
            s\<lparr>passengers := passengers (updateUserRating s userId (userType_text Passenger))\<rparr>"
    unfolding userType_text.simps by (rule updateUserRating_passenger_rows(3) [OF ne])
next
  fix scores :: "int list"
  assume a: "scores \<noteq> [] \<and> (\<forall>x \<in> set scores. 1 \<le> x \<and> x \<le> 5) \<and> length scores < 2 ^ 32"
  then have "scores \<noteq> []" "\<forall>x \<in> set scores. 1 \<le> x \<and> x \<le> 5" "length scores < 2 ^ 32"
    by simp_all
  from average_rounded [OF this]
  show "\<exists>h. toFixed2 (js_div (js_sum scores) (length scores)) =
                digits (h div 100) @ ''.'' @
                [''0123456789'' ! (h div 10 mod 10), ''0123456789'' ! (h mod 10)]
            \<and> 2 * \<bar>int h * int (length scores) - 100 * sum_list scores\<bar> \<le> int (length scores)"
    unfolding fixed2_decimal .
next
  show "toFixed2 (js_div (js_sum [5, 4, 3]) 3) = ''4.00''"
    by (rule toFixed2_5_4_3)
next
  assume "asInteger asked = None"
  then show "getUserRating s asked role = (Inl CaughtError, s)"
    by (rule getUserRating_refused)
next
  fix userKey
  assume "asInteger asked = Some userKey" and "scoresOf s userKey role = []"
  then show "getUserRating s asked role =
          (Inr \<lparr>ur_rating = ''5.00'', ur_totalRatings = 0, ur_recentComments = []\<rparr>, s)"
    by (rule getUserRating_none)
next
  fix userKey
  assume "asInteger asked = Some userKey" and "scoresOf s userKey role \<noteq> []"
  then show "\<exists>r. getUserRating s asked role = (Inr r, s)
            \<and> ur_rating r = toFixed2 (js_div (js_sum (scoresOf s userKey role))
                                              (length (scoresOf s userKey role)))
            \<and> ur_totalRatings r = length (scoresOf s userKey role)"
    by (rule getUserRating_some)
qed

text \<open>
  In the scenario. The passenger rates the third order with three stars: in the state in which
  the tool calls \<^verbatim>\<open>updateUserRating\<close>, D2's history is 5, 4, 3, and the call writes \<^verbatim>\<open>4.00\<close> and 3
  rides to D2's row and leaves the rows of D1 and D3; the hundredths are 400, exactly a hundred
  times 12 / 3. D2 rates the first passenger with four stars: the passenger's row is written
  \<^verbatim>\<open>4.00\<close> with 1 ride and the second passenger's row stays. D3, never rated, is left as is and
  reported with the defaults; D2 is reported with the mean of 5 and 4; the id 2147483648 is
  refused.
\<close>

theorem rating_aggregate_witness:
  "rateRide served_db ''p1'' 3 Passenger 3 (Some ''late'') =
       (Inr (), updateUserRating history_db 2 ''driver'')
   \<and> scoresOf history_db 2 Driver = [5, 4, 3]
   \<and> length (drivers (updateUserRating history_db 2 ''driver'')) = 3
   \<and> drivers (updateUserRating history_db 2 ''driver'') ! 0 = driver_row 1 ''d1'' True
   \<and> drivers (updateUserRating history_db 2 ''driver'') ! 1 = rated_driver ''4.00'' 3
   \<and> drivers (updateUserRating history_db 2 ''driver'') ! 2 = driver_row 3 ''d3'' False
   \<and> updateUserRating history_db 2 ''driver'' =
       history_db\<lparr>drivers := drivers (updateUserRating history_db 2 ''driver'')\<rparr>
   \<and> rateRide served_db ''d2'' 1 Driver 4 None =
       (Inr (), updateUserRating praised_db 1 ''passenger'')
   \<and> scoresOf praised_db 1 Passenger = [4]
   \<and> length (passengers (updateUserRating praised_db 1 ''passenger'')) = 2
   \<and> passengers (updateUserRating praised_db 1 ''passenger'') ! 0 =
       (passenger_row 1 ''p1'')\<lparr>p_rating := Some ''4.00'', p_totalRides := Some 1\<rparr>
   \<and> passengers (updateUserRating praised_db 1 ''passenger'') ! 1 = passenger_row 2 ''p2''
   \<and> updateUserRating praised_db 1 ''passenger'' =
       praised_db\<lparr>passengers := passengers (updateUserRating praised_db 1 ''passenger'')\<rparr>
   \<and> scoresOf served_db 3 Driver = []
   \<and> updateUserRating served_db 3 ''driver'' = served_db
   \<and> (\<exists>h. toFixed2 (js_div (js_sum [5, 4, 3]) (length [5, 4, 3 :: int])) =
             digits (h div 100) @ ''.'' @
             [''0123456789'' ! (h div 10 mod 10), ''0123456789'' ! (h mod 10)]
          \<and> 2 * \<bar>int h * int (length [5, 4, 3 :: int]) - 100 * sum_list [5, 4, 3]\<bar>
              \<le> int (length [5, 4, 3 :: int]))
   \<and> asInteger 2147483648 = None
   \<and> getUserRating served_db 2147483648 Driver = (Inl CaughtError, served_db)
   \<and> asInteger 3 = Some 3
   \<and> getUserRating served_db 3 Driver =
       (Inr \<lparr>ur_rating = ''5.00'', ur_totalRatings = 0, ur_recentComments = []\<rparr>, served_db)
   \<and> asInteger 2 = Some 2
   \<and> scoresOf served_db 2 Driver = [5, 4]
   \<and> (\<exists>r. getUserRating served_db 2 Driver = (Inr r, served_db)
          \<and> ur_rating r = ''4.50'' \<and> ur_totalRatings r = 2)"
proof -
  note inst = rating_aggregate
  note k = asInteger_values(7) asInteger_values(3) asInteger_values(2)
  have sc: "scoresOf history_db 2 Driver = [5, 4, 3]"
    and sp: "scoresOf praised_db 1 Passenger = [4]"
    and none: "scoresOf served_db 3 Driver = []"
    and two: "scoresOf served_db 2 Driver = [5, 4]"
    by (simp_all add: scoresOf_def history_db_def praised_db_def served_db_def rating_row_def)
  have ne: "scoresOf history_db 2 Driver \<noteq> []" "scoresOf praised_db 1 Passenger \<noteq> []"
    "scoresOf served_db 2 Driver \<noteq> []"
    by (simp_all add: sc sp two)
  have len: "length [5, 4, 3 :: int] = 3" "length [4 :: int] = Suc 0" "length [5, 4 :: int] = 2"
    by simp_all
  have rows: "length (drivers history_db) = 3" "length (passengers praised_db) = 2"
    "(0::nat) < 3" "(1::nat) < 3" "(2::nat) < 3" "(0::nat) < 2" "(1::nat) < 2"
    by (simp_all add: history_db_def praised_db_def served_db_def)
  have stored: "userType_text Driver = ''driver''" "userType_text Passenger = ''passenger''"
    by simp_all
  have d0: "(if d_id (drivers history_db ! 0) = 2
             then (drivers history_db ! 0)\<lparr>d_rating := Some ''4.00'', d_totalRides := Some (int 3)\<rparr>
             else drivers history_db ! 0) = driver_row 1 ''d1'' True"
    and d1: "(if d_id (drivers history_db ! 1) = 2
             then (drivers history_db ! 1)\<lparr>d_rating := Some ''4.00'', d_totalRides := Some (int 3)\<rparr>
             else drivers history_db ! 1) = rated_driver ''4.00'' 3"
    and d2: "(if d_id (drivers history_db ! 2) = 2
             then (drivers history_db ! 2)\<lparr>d_rating := Some ''4.00'', d_totalRides := Some (int 3)\<rparr>
             else drivers history_db ! 2) = driver_row 3 ''d3'' False"
    by (simp_all add: history_db_def served_db_def rated_driver_def driver_row_def)
  have p0: "(if p_id (passengers praised_db ! 0) = 1
             then (passengers praised_db ! 0)\<lparr>p_rating := Some ''4.00'',
                     p_totalRides := Some (int (Suc 0))\<rparr>
             else passengers praised_db ! 0) =
            (passenger_row 1 ''p1'')\<lparr>p_rating := Some ''4.00'', p_totalRides := Some 1\<rparr>"
    and p1: "(if p_id (passengers praised_db ! 1) = 1
             then (passengers praised_db ! 1)\<lparr>p_rating := Some ''4.00'',
                     p_totalRides := Some (int (Suc 0))\<rparr>
             else passengers praised_db ! 1) = passenger_row 2 ''p2''"
    by (simp_all add: praised_db_def served_db_def passenger_row_def)
  note driver = inst [of history_db 2, THEN conjunct2, THEN conjunct1, rule_format, OF ne(1),
      unfolded stored sc len toFixed2_5_4_3 rows]
  note a1 = driver [THEN conjunct1]
    and a2 = driver [THEN conjunct2, THEN conjunct1, rule_format, OF rows(3), unfolded d0]
    and a3 = driver [THEN conjunct2, THEN conjunct1, rule_format, OF rows(4), unfolded d1]
    and a4 = driver [THEN conjunct2, THEN conjunct1, rule_format, OF rows(5), unfolded d2]
    and a5 = driver [THEN conjunct2, THEN conjunct2]
  note passenger = inst [of praised_db 1, THEN conjunct2, THEN conjunct2, THEN conjunct1,
      rule_format, OF ne(2), unfolded stored sp len toFixed2_single rows]
  note b1 = passenger [THEN conjunct1]
    and b2 = passenger [THEN conjunct2, THEN conjunct1, rule_format, OF rows(6), unfolded p0]
    and b3 = passenger [THEN conjunct2, THEN conjunct1, rule_format, OF rows(7), unfolded p1]
    and b4 = passenger [THEN conjunct2, THEN conjunct2]
  from inst [of served_db 3 Driver, THEN conjunct1, rule_format, OF none]
  have c: "updateUserRating served_db 3 ''driver'' = served_db" by simp
  have range: "[5, 4, 3 :: int] \<noteq> [] \<and> (\<forall>x \<in> set [5, 4, 3 :: int]. 1 \<le> x \<and> x \<le> 5)
      \<and> length [5, 4, 3 :: int] < 2 ^ 32" by simp
  from inst [of history_db 2, THEN conjunct2, THEN conjunct2, THEN conjunct2, THEN conjunct1,
      rule_format, OF range]
  have d: "\<exists>h. toFixed2 (js_div (js_sum [5, 4, 3]) (length [5, 4, 3 :: int])) =
             digits (h div 100) @ ''.'' @
             [''0123456789'' ! (h div 10 mod 10), ''0123456789'' ! (h mod 10)]
          \<and> 2 * \<bar>int h * int (length [5, 4, 3 :: int]) - 100 * sum_list [5, 4, 3]\<bar>
              \<le> int (length [5, 4, 3 :: int])" .
  from inst [where s = served_db and role = Driver and asked = 2147483648, THEN conjunct2,
      THEN conjunct2, THEN conjunct2, THEN conjunct2, THEN conjunct2,
      THEN conjunct1, rule_format, OF k(1)]
  have e: "getUserRating served_db 2147483648 Driver = (Inl CaughtError, served_db)" .
  from inst [where s = served_db and role = Driver and asked = 3, THEN conjunct2,
      THEN conjunct2, THEN conjunct2, THEN conjunct2, THEN conjunct2,
      THEN conjunct2, rule_format, OF k(2), THEN conjunct1, rule_format, OF none]
  have f: "getUserRating served_db 3 Driver =
       (Inr \<lparr>ur_rating = ''5.00'', ur_totalRatings = 0, ur_recentComments = []\<rparr>, served_db)" .
  from inst [where s = served_db and role = Driver and asked = 2, THEN conjunct2,
      THEN conjunct2, THEN conjunct2, THEN conjunct2, THEN conjunct2,
      THEN conjunct2, rule_format, OF k(3), THEN conjunct2, rule_format, OF ne(3)]
  have g: "\<exists>r. getUserRating served_db 2 Driver = (Inr r, served_db)
          \<and> ur_rating r = ''4.50'' \<and> ur_totalRatings r = 2"
    unfolding two len toFixed2_5_4 .
  from history_db_reachable sc a1 a2 a3 a4 a5 praised_db_reachable sp b1 b2 b3 b4 none c d
    k(1) e k(2) f k(3) two g
  show ?thesis by (intro conjI)
qed

text \<open>
  The claim fails at an id the store cannot read. No rating is stored for a driver 2147483648,
  and \<^verbatim>\<open>getUserRatingTool\<close> does not succeed with the defaults: the select raises, and the tool
  fails with its general message.
\<close>

theorem rating_aggregate_counterexample:
  "map r_toUserId (ratings served_db) = [2, 2]
   \<and> getUserRating served_db 2147483648 Driver = (Inl CaughtError, served_db)
   \<and> isl (fst (getUserRating served_db 2147483648 Driver))
   \<and> getUserRating served_db 3 Driver =
       (Inr \<lparr>ur_rating = ''5.00'', ur_totalRatings = 0, ur_recentComments = []\<rparr>, served_db)"
  by (simp add: getUserRating_def asInteger_values served_db_def rating_row_def)

text \<open>
  A passenger's rating and the driver's profile. When \<^verbatim>\<open>rateRideTool\<close> accepts a passenger's
  rating, the score joins the end of the driver's history and, in the same call, each
  profile row of the driver is written with the aggregate over the whole history, the new
  score included; the other driver rows and the passengers are as they were.
\<close>

lemma scoresOf_updateUserRating:
  "scoresOf (updateUserRating s userId userType) target role = scoresOf s target role"
  by (simp add: scoresOf_def)

theorem rateRide_recomputes:
  assumes key: "asInteger orderId = Some orderKey"
    and ord: "orderOf s orderKey = Some orderData"
    and who: "callerId s telegramId Passenger = Some userId"
    and party: "recordedParty orderData Passenger userId"
    and fresh: "\<not> alreadyRated s orderKey userId Passenger"
    and alone: "\<not> namesakeRated s orderKey userId Passenger"
    and driver: "o_acceptedDriverId orderData = Some target"
    and whole: "asInteger rating = Some stars"
  shows "\<exists>s'. rateRide s telegramId orderId Passenger rating comment = (Inr (), s')
      \<and> scoresOf s' target Driver = scoresOf s target Driver @ [stars]
      \<and> length (drivers s') = length (drivers s)
      \<and> (\<forall>i < length (drivers s).
            drivers s' ! i =
              (if d_id (drivers s ! i) = target
               then (drivers s ! i)\<lparr>
                      d_rating := Some (toFixed2 (js_div (js_sum (scoresOf s' target Driver))
                                                         (length (scoresOf s' target Driver)))),
                      d_totalRides := Some (int (length (scoresOf s' target Driver)))\<rparr>
               else drivers s ! i))
      \<and> passengers s' = passengers s"
proof -
  define s1 where "s1 = s\<lparr>ratings := ratings s @
              [\<lparr>r_id = seq_ratings s + 1, r_orderId = orderKey, r_fromUserId = userId,
                r_fromUserType = userType_text Passenger, r_toUserId = target,
                r_toUserType = userType_text (counterpart Passenger),
                r_rating = stars, r_comment = orNull comment\<rparr>],
            seq_ratings := seq_ratings s + 1\<rparr>"
  define s' where "s' = updateUserRating s1 target ''driver''"
  have parties: "ratingParties s telegramId Passenger orderData = Inr (userId, Some target)"
    unfolding ratingParties_Inr_iff using who party driver by simp
  have run: "rateRide s telegramId orderId Passenger rating comment = (Inr (), s')"
    unfolding rateRide_inserted [OF key ord parties fresh alone whole] s'_def s1_def by simp
  have hist1: "scoresOf s1 target Driver = scoresOf s target Driver @ [stars]"
    by (simp add: scoresOf_def s1_def)
  have same: "scoresOf s' target Driver = scoresOf s1 target Driver"
    by (simp add: s'_def scoresOf_updateUserRating)
  have hist: "scoresOf s' target Driver = scoresOf s target Driver @ [stars]"
    unfolding same by (rule hist1)
  have ne: "scoresOf s1 target Driver \<noteq> []" by (simp add: hist1)
  have tables: "drivers s1 = drivers s" "passengers s1 = passengers s"
    by (simp_all add: s1_def)
  note rows = updateUserRating_driver_rows [OF ne, folded s'_def, unfolded tables]
  have len: "length (drivers s') = length (drivers s)"
    by (rule rows(1))
  have nth: "\<forall>i < length (drivers s).
            drivers s' ! i =
              (if d_id (drivers s ! i) = target
               then (drivers s ! i)\<lparr>
                      d_rating := Some (toFixed2 (js_div (js_sum (scoresOf s' target Driver))
                                                         (length (scoresOf s' target Driver)))),
                      d_totalRides := Some (int (length (scoresOf s' target Driver)))\<rparr>
               else drivers s ! i)"
    unfolding same by (rule rows(2))
  have "passengers s' = passengers (s1\<lparr>drivers := drivers s'\<rparr>)"
    using rows(3) by (rule arg_cong)
  then have pass: "passengers s' = passengers s"
    by (simp add: tables)
  show ?thesis
    by (intro exI conjI) (rule run hist len nth pass)+
qed

theorem rateRide_recomputes_witness:
  "orderOf served_db 3 = Some (accepted_order 3 1 400 2 420)
   \<and> callerId served_db ''p1'' Passenger = Some 1
   \<and> recordedParty (accepted_order 3 1 400 2 420) Passenger 1
   \<and> \<not> alreadyRated served_db 3 1 Passenger
   \<and> \<not> namesakeRated served_db 3 1 Passenger
   \<and> o_acceptedDriverId (accepted_order 3 1 400 2 420) = Some 2
   \<and> asInteger 3 = Some 3
   \<and> scoresOf served_db 2 Driver = [5, 4]
   \<and> (\<exists>s'. rateRide served_db ''p1'' 3 Passenger 3 (Some ''late'') = (Inr (), s')
          \<and> scoresOf s' 2 Driver = [5, 4, 3]
          \<and> length (drivers s') = 3
          \<and> drivers s' ! 0 = driver_row 1 ''d1'' True
          \<and> drivers s' ! 1 = rated_driver ''4.00'' 3
          \<and> drivers s' ! 2 = driver_row 3 ''d3'' False
          \<and> passengers s' = passengers served_db)"
proof -
  let ?o3 = "accepted_order 3 1 400 2 420"
  note k = asInteger_values(3)
  have ord: "orderOf served_db 3 = Some ?o3"
    by (simp add: orderOf_def served_db_def accepted_order_def order_row_def)
  have who: "callerId served_db ''p1'' Passenger = Some 1"
    by (simp add: callerId_def served_db_def passenger_row_def)
  have party: "recordedParty ?o3 Passenger 1" and driver: "o_acceptedDriverId ?o3 = Some 2"
    by (simp_all add: recordedParty_def accepted_order_def order_row_def)
  have fresh: "\<not> alreadyRated served_db 3 1 Passenger"
    and alone: "\<not> namesakeRated served_db 3 1 Passenger"
    and hist: "scoresOf served_db 2 Driver = [5, 4]"
    by (simp_all add: alreadyRated_def namesakeRated_def scoresOf_def served_db_def rating_row_def)
  have len: "length [5, 4, 3 :: int] = 3" by simp
  have rows: "length (drivers served_db) = 3" "(0::nat) < 3" "(1::nat) < 3" "(2::nat) < 3"
    by (simp_all add: served_db_def)
  have d0: "(if d_id (drivers served_db ! 0) = 2
             then (drivers served_db ! 0)\<lparr>d_rating := Some ''4.00'', d_totalRides := Some (int 3)\<rparr>
             else drivers served_db ! 0) = driver_row 1 ''d1'' True"
    and d1: "(if d_id (drivers served_db ! 1) = 2
             then (drivers served_db ! 1)\<lparr>d_rating := Some ''4.00'', d_totalRides := Some (int 3)\<rparr>
             else drivers served_db ! 1) = rated_driver ''4.00'' 3"
    and d2: "(if d_id (drivers served_db ! 2) = 2
             then (drivers served_db ! 2)\<lparr>d_rating := Some ''4.00'', d_totalRides := Some (int 3)\<rparr>
             else drivers served_db ! 2) = driver_row 3 ''d3'' False"
    by (simp_all add: served_db_def rated_driver_def driver_row_def)
  from rateRide_recomputes [OF k ord who party fresh alone driver k, of "Some ''late''"]
  obtain s' where run: "rateRide served_db ''p1'' 3 Passenger 3 (Some ''late'') = (Inr (), s')"
    and joined: "scoresOf s' 2 Driver = scoresOf served_db 2 Driver @ [3]"
    and count: "length (drivers s') = length (drivers served_db)"
    and nth: "\<forall>i < length (drivers served_db).
            drivers s' ! i =
              (if d_id (drivers served_db ! i) = 2
               then (drivers served_db ! i)\<lparr>
                      d_rating := Some (toFixed2 (js_div (js_sum (scoresOf s' 2 Driver))
                                                         (length (scoresOf s' 2 Driver)))),
                      d_totalRides := Some (int (length (scoresOf s' 2 Driver)))\<rparr>
               else drivers served_db ! i)"
    and pass: "passengers s' = passengers served_db"
    by (elim exE conjE)
  have sc: "scoresOf s' 2 Driver = [5, 4, 3]"
    unfolding joined hist by simp
  note rows' = nth [unfolded sc len toFixed2_5_4_3 rows]
  note r0 = rows' [rule_format, OF rows(2), unfolded d0]
    and r1 = rows' [rule_format, OF rows(3), unfolded d1]
    and r2 = rows' [rule_format, OF rows(4), unfolded d2]
  have c: "\<exists>s'. rateRide served_db ''p1'' 3 Passenger 3 (Some ''late'') = (Inr (), s')
          \<and> scoresOf s' 2 Driver = [5, 4, 3]
          \<and> length (drivers s') = 3
          \<and> drivers s' ! 0 = driver_row 1 ''d1'' True
          \<and> drivers s' ! 1 = rated_driver ''4.00'' 3
          \<and> drivers s' ! 2 = driver_row 3 ''d3'' False
          \<and> passengers s' = passengers served_db"
    using run sc count [unfolded rows] r0 r1 r2 pass by (intro exI conjI)
  from ord who party fresh alone driver k hist c show ?thesis by (intro conjI)
qed

section \<open>Further properties of the tools\<close>

text \<open>
  Adjudicating an id no document has: \<^verbatim>\<open>processDocumentVerificationTool\<close> reports success and
  the database is the one given (the update matches no row, and no flag is recomputed).
\<close>

theorem processDocumentVerification_no_document:
  assumes "filter (\<lambda>c. doc_id c = documentId) (driverDocuments s) = []"
  shows "processDocumentVerification s documentId approve rejectionReason = (Inr (), s)"
  using assms by (rule processDocumentVerification_missing)

theorem processDocumentVerification_no_document_witness:
  "filter (\<lambda>c. doc_id c = 9) (driverDocuments verified_db) = []
   \<and> processDocumentVerification verified_db 9 True None = (Inr (), verified_db)
   \<and> processDocumentVerification verified_db 9 False (Some ''expired'') = (Inr (), verified_db)"
proof -
  have none: "filter (\<lambda>c. doc_id c = 9) (driverDocuments verified_db) = []"
    by (simp add: verified_db_def document_row_def)
  from none processDocumentVerification_no_document [OF none, of True None]
    processDocumentVerification_no_document [OF none, of False "Some ''expired''"]
  show ?thesis by (intro conjI)
qed

text \<open>
  Registration is an upsert keyed by the handle: a handle that is registered gets the id of
  its profile back and nothing changes, name and phone included; a new handle gets a profile
  that is not verified, rated \<^verbatim>\<open>5.00\<close> with no rides.
\<close>

theorem registerDriver_upsert:
  "(\<forall>existing rest.
      filter (\<lambda>d. d_telegramId d = telegramId) (drivers s) = existing # rest \<longrightarrow>
      registerDriver s telegramId firstName phoneNumber carModel carColor carNumber =
        (Inr (d_id existing), s))
   \<and> (filter (\<lambda>d. d_telegramId d = telegramId) (drivers s) = [] \<longrightarrow>
        (\<exists>row. registerDriver s telegramId firstName phoneNumber carModel carColor carNumber =
                 (Inr (d_id row), s\<lparr>drivers := drivers s @ [row], seq_drivers := seq_drivers s + 1\<rparr>)
               \<and> d_id row = seq_drivers s + 1 \<and> d_telegramId row = telegramId
               \<and> d_firstName row = firstName \<and> d_phoneNumber row = phoneNumber
               \<and> d_isVerified row = Some False \<and> d_rating row = Some ''5.00''
               \<and> d_totalRides row = Some 0))"
proof (intro conjI impI allI)
  fix existing rest
  assume "filter (\<lambda>d. d_telegramId d = telegramId) (drivers s) = existing # rest"
  then show "registerDriver s telegramId firstName phoneNumber carModel carColor carNumber =
        (Inr (d_id existing), s)"
    by (simp add: registerDriver_def)
next
  assume none: "filter (\<lambda>d. d_telegramId d = telegramId) (drivers s) = []"
  define row where "row = \<lparr>d_id = seq_drivers s + 1, d_telegramId = telegramId, d_firstName = firstName,
                     d_phoneNumber = phoneNumber, d_rating = Some ''5.00'',
                     d_totalRides = Some 0, d_isOnline = Some False,
                     d_isVerified = Some False, d_carModel = Some carModel,
                     d_carColor = Some carColor, d_carNumber = Some carNumber,
                     d_licenseStatus = Some ''pending'', d_vehicleStatus = Some ''pending''\<rparr>"
  have run: "registerDriver s telegramId firstName phoneNumber carModel carColor carNumber =
                 (Inr (d_id row), s\<lparr>drivers := drivers s @ [row], seq_drivers := seq_drivers s + 1\<rparr>)"
    using none by (simp add: registerDriver_def Let_def row_def)
  have fields: "d_id row = seq_drivers s + 1" "d_telegramId row = telegramId"
    "d_firstName row = firstName" "d_phoneNumber row = phoneNumber"
    "d_isVerified row = Some False" "d_rating row = Some ''5.00''" "d_totalRides row = Some 0"
    by (simp_all add: row_def)
  show "\<exists>row. registerDriver s telegramId firstName phoneNumber carModel carColor carNumber =
                 (Inr (d_id row), s\<lparr>drivers := drivers s @ [row], seq_drivers := seq_drivers s + 1\<rparr>)
               \<and> d_id row = seq_drivers s + 1 \<and> d_telegramId row = telegramId
               \<and> d_firstName row = firstName \<and> d_phoneNumber row = phoneNumber
               \<and> d_isVerified row = Some False \<and> d_rating row = Some ''5.00''
               \<and> d_totalRides row = Some 0"
    by (intro exI conjI) (rule run fields)+
qed

theorem registerDriver_upsert_witness:
  "filter (\<lambda>d. d_telegramId d = ''d1'') (drivers verified_db) = [driver_row 1 ''d1'' True]
   \<and> registerDriver verified_db ''d1'' ''Oleg'' ''999'' ''Kia'' ''red'' ''B777'' = (Inr 1, verified_db)
   \<and> filter (\<lambda>d. d_telegramId d = ''d4'') (drivers verified_db) = []
   \<and> (\<exists>row. registerDriver verified_db ''d4'' ''Oleg'' ''999'' ''Kia'' ''red'' ''B777'' =
               (Inr (d_id row), verified_db\<lparr>drivers := drivers verified_db @ [row], seq_drivers := 4\<rparr>)
             \<and> d_id row = 4 \<and> d_isVerified row = Some False \<and> d_rating row = Some ''5.00'')"
proof -
  have d1: "filter (\<lambda>d. d_telegramId d = ''d1'') (drivers verified_db) = [driver_row 1 ''d1'' True]"
    and d4: "filter (\<lambda>d. d_telegramId d = ''d4'') (drivers verified_db) = []"
    by (simp_all add: verified_db_def driver_row_def)
  have seq: "seq_drivers verified_db + 1 = 4" and id1: "d_id (driver_row 1 ''d1'' True) = 1"
    by (simp_all add: verified_db_def driver_row_def)
  note inst = registerDriver_upsert [of _ verified_db "''Oleg''" "''999''" "''Kia''" "''red''" "''B777''"]
  from inst [of "''d1''", THEN conjunct1, rule_format, OF d1]
  have a: "registerDriver verified_db ''d1'' ''Oleg'' ''999'' ''Kia'' ''red'' ''B777'' = (Inr 1, verified_db)"
    unfolding id1 .
  from inst [of "''d4''", THEN conjunct2, rule_format, OF d4]
  obtain row where b: "registerDriver verified_db ''d4'' ''Oleg'' ''999'' ''Kia'' ''red'' ''B777'' =
                 (Inr (d_id row), verified_db\<lparr>drivers := drivers verified_db @ [row],
                                               seq_drivers := seq_drivers verified_db + 1\<rparr>)"
    "d_id row = seq_drivers verified_db + 1" "d_isVerified row = Some False"
    "d_rating row = Some ''5.00''"
    by (elim exE conjE)
  have c: "\<exists>row. registerDriver verified_db ''d4'' ''Oleg'' ''999'' ''Kia'' ''red'' ''B777'' =
               (Inr (d_id row), verified_db\<lparr>drivers := drivers verified_db @ [row], seq_drivers := 4\<rparr>)
             \<and> d_id row = 4 \<and> d_isVerified row = Some False \<and> d_rating row = Some ''5.00''"
    using b [unfolded seq] by (intro exI conjI)
  from d1 a d4 c show ?thesis by (intro conjI)
qed

text \<open>
  Accepting a negotiation: for a registered driver the rows with the negotiation's id are
  marked accepted and nothing else is written. The order keeps its status: accepting a
  counter-offer does not accept the order.
\<close>

theorem respondToCounterOffer_accept:
  assumes "filter (\<lambda>d. d_telegramId d = telegramId) (drivers s) = driver # rest"
  shows "\<exists>rows. respondToCounterOffer s telegramId negotiationId True counterPrice =
                  (Inr NegotiationAccepted, s\<lparr>priceNegotiations := rows\<rparr>)
               \<and> length rows = length (priceNegotiations s)
               \<and> (\<forall>i < length rows.
                     rows ! i = (if n_id (priceNegotiations s ! i) = negotiationId
                                 then (priceNegotiations s ! i)\<lparr>n_status := Some ''accepted''\<rparr>
                                 else priceNegotiations s ! i))"
proof -
  define rows where "rows = update_where (\<lambda>n. n_id n = negotiationId)
      (\<lambda>n. n\<lparr>n_status := Some ''accepted''\<rparr>) (priceNegotiations s)"
  have run: "respondToCounterOffer s telegramId negotiationId True counterPrice =
                  (Inr NegotiationAccepted, s\<lparr>priceNegotiations := rows\<rparr>)"
    using assms by (simp add: respondToCounterOffer_def rows_def)
  have len: "length rows = length (priceNegotiations s)"
    by (simp add: rows_def)
  have each: "\<forall>i < length rows.
                     rows ! i = (if n_id (priceNegotiations s ! i) = negotiationId
                                 then (priceNegotiations s ! i)\<lparr>n_status := Some ''accepted''\<rparr>
                                 else priceNegotiations s ! i)"
    unfolding len unfolding rows_def by (simp add: nth_update_where)
  show ?thesis
    by (intro exI conjI) (rule run len each)+
qed

theorem respondToCounterOffer_accept_witness:
  "filter (\<lambda>d. d_telegramId d = ''d1'') (drivers negotiating_db) = [driver_row 1 ''d1'' True]
   \<and> (\<exists>rows. respondToCounterOffer negotiating_db ''d1'' 1 True None =
                (Inr NegotiationAccepted, negotiating_db\<lparr>priceNegotiations := rows\<rparr>)
             \<and> length rows = 1)
   \<and> respondToCounterOffer negotiating_db ''d1'' 1 True None =
       (Inr NegotiationAccepted,
        negotiating_db\<lparr>priceNegotiations := [(negotiation_row 1 1 1 1 450)\<lparr>n_status := Some ''accepted''\<rparr>]\<rparr>)
   \<and> map o_status (orders negotiating_db) = [Some ''pending'', Some ''pending'']"
proof -
  have d1: "filter (\<lambda>d. d_telegramId d = ''d1'') (drivers negotiating_db) = [driver_row 1 ''d1'' True]"
    by (simp add: negotiating_db_def market_db_def verified_db_def driver_row_def)
  have len: "length (priceNegotiations negotiating_db) = 1"
    by (simp add: negotiating_db_def)
  from respondToCounterOffer_accept [OF d1, of 1 None]
  obtain rows where b: "respondToCounterOffer negotiating_db ''d1'' 1 True None =
                (Inr NegotiationAccepted, negotiating_db\<lparr>priceNegotiations := rows\<rparr>)"
    "length rows = length (priceNegotiations negotiating_db)"
    by (elim exE conjE)
  have c: "\<exists>rows. respondToCounterOffer negotiating_db ''d1'' 1 True None =
                (Inr NegotiationAccepted, negotiating_db\<lparr>priceNegotiations := rows\<rparr>)
             \<and> length rows = 1"
    using b [unfolded len] by (intro exI conjI)
  have run: "respondToCounterOffer negotiating_db ''d1'' 1 True None =
       (Inr NegotiationAccepted,
        negotiating_db\<lparr>priceNegotiations := [(negotiation_row 1 1 1 1 450)\<lparr>n_status := Some ''accepted''\<rparr>]\<rparr>)"
    by (simp add: respondToCounterOffer_def negotiating_db_def market_db_def verified_db_def
        driver_row_def negotiation_row_def update_where_def)
  have ords: "map o_status (orders negotiating_db) = [Some ''pending'', Some ''pending'']"
    by (simp add: negotiating_db_def market_db_def order_row_def)
  from d1 c run ords show ?thesis by (intro conjI)
qed

end
